theory Spec2Isabelle
  imports Main
begin

section \<open>Taint classification (aura/analyzers/python/nodes.py)\<close>

text \<open>
  The enumeration \<open>Taints\<close> with its members \<open>SAFE = 1\<close>, \<open>UNKNOWN = 2\<close>,
  \<open>TAINTED = 3\<close>, and the operator \<open>__add__\<close> that combines two of them.
\<close>

datatype Taints = SAFE | UNKNOWN | TAINTED

fun taint_add :: "Taints \<Rightarrow> Taints \<Rightarrow> Taints" where
  "taint_add self other =
     (if self = TAINTED \<or> other = TAINTED then TAINTED
      else if self = UNKNOWN \<or> other = UNKNOWN then UNKNOWN
      else self)"

section \<open>Exceptions\<close>

text \<open>
  Python exceptions are values: the class of the exception and its \<open>args\<close> tuple.
  A function that can raise returns \<open>exn + 'a\<close>, with \<open>Inl\<close> for the raise.
\<close>

datatype exc_class =
    ReadError | BadZipFile | TypeError | ValueError | IndexError | KeyError
  | AttributeError | OtherError string

datatype exn = Exn (exc_class: exc_class) (exc_args: "string list")

text \<open>\<open>exc.__class__.__name__\<close>\<close>

fun class_name :: "exc_class \<Rightarrow> string" where
  "class_name ReadError = ''ReadError''"
| "class_name BadZipFile = ''BadZipFile''"
| "class_name TypeError = ''TypeError''"
| "class_name ValueError = ''ValueError''"
| "class_name IndexError = ''IndexError''"
| "class_name KeyError = ''KeyError''"
| "class_name AttributeError = ''AttributeError''"
| "class_name (OtherError n) = n"

text \<open>\<open>repr\<close> of a string that holds no quote and no backslash, and \<open>str\<close> of an
  integer or of \<open>None\<close>, as an f-string renders them.\<close>

definition py_repr :: "string \<Rightarrow> string" where
  "py_repr s = [CHR 0x27] @ s @ [CHR 0x27]"

fun str_nat :: "nat \<Rightarrow> string" where
  "str_nat n =
     (if n < 10 then [''0123456789'' ! n]
      else str_nat (n div 10) @ [''0123456789'' ! (n mod 10)])"

definition str_int :: "int \<Rightarrow> string" where
  "str_int i = (if i < 0 then ''-'' @ str_nat (nat (- i)) else str_nat (nat i))"

definition str_int_option :: "int option \<Rightarrow> string" where
  "str_int_option v = (case v of None \<Rightarrow> ''None'' | Some i \<Rightarrow> str_int i)"

section \<open>Syntax tree nodes (aura/analyzers/python/nodes.py)\<close>

text \<open>
  \<open>ASTNode.__post_init__\<close> gives every node the slots \<open>_full_name\<close> and \<open>line_no\<close>
  (both \<open>None\<close> at construction), next to \<open>_original\<close>, \<open>_docs\<close>, \<open>tags\<close>, \<open>_hash\<close>
  and \<open>_taint_class\<close>, which none of the functions below reads. A \<open>_full_name\<close> that
  is set holds a string.
\<close>

record meta =
  full_name_slot :: "string option"
  line_no :: "int option"

text \<open>
  \<open>NodeType\<close> is the union of the node classes with plain \<open>dict\<close>, \<open>list\<close>, \<open>int\<close> and
  \<open>str\<close> values; \<open>None\<close> occurs as a field value as well. The constructors \<open>PyNone\<close>,
  \<open>PyInt\<close>, \<open>PyStr\<close>, \<open>PyList\<close> and \<open>PyDict\<close> are those plain values (a \<open>PyDict\<close> has
  string keys, each at most once), the others the dataclasses of the module, each with its
  fields in the order of declaration.
\<close>

datatype node =
    PyNone
  | PyInt int
  | PyStr string
  | PyList "node list"
  | PyDict "(string \<times> node) list"
  | Number meta int
  | String meta string
  | Dictionary meta "node list" "node list"
  | Var meta string node string
  | Attribute meta node string string
  | Compare meta node "node list" "node list"
  | FunctionDef meta string "node list" "node list" "node list" node
  | Call meta node "node list" node
  | Arguments meta "string list" node "node list" node "node list" "node list"
  | Import meta string string string
  | BinOp meta string node node
  | Print meta "node list" node

definition no_attribute :: "string \<Rightarrow> exn" where
  "no_attribute a = Exn AttributeError [''object has no attribute '' @ py_repr a]"

definition slot_value :: "meta \<Rightarrow> node" where
  "slot_value m = (case full_name_slot m of None \<Rightarrow> PyNone | Some s \<Rightarrow> PyStr s)"

text \<open>
  The property \<open>full_name\<close>: \<open>ASTNode.full_name\<close> returns the slot; \<open>Var\<close>, \<open>Attribute\<close>,
  \<open>Call\<close> and \<open>Import\<close> override it. No class and no plain value has an attribute
  \<open>fullname\<close>, so the middle branch of \<open>Var.full_name\<close> is never taken. In
  \<open>Call.full_name\<close>, \<open>getattr(self.func, 'full_name', None)\<close> turns the AttributeError
  of a plain value into \<open>None\<close>.
\<close>

fun full_name :: "node \<Rightarrow> exn + node" where
  "full_name (Var m var_name v var_type) =
     (case full_name_slot m of
        Some s \<Rightarrow> if s \<noteq> [] then Inr (PyStr s) else Inr v
      | None \<Rightarrow> Inr v)"
| "full_name (Attribute m source attr action) =
     (case source of
        Import mi module alias import_type \<Rightarrow> Inr (PyStr (module @ ''.'' @ attr))
      | _ \<Rightarrow> Inr PyNone)"
| "full_name (Import m module alias import_type) = Inr (PyStr module)"
| "full_name (Call m func args kwargs) =
     (case full_name_slot m of
        Some s \<Rightarrow> Inr (PyStr s)
      | None \<Rightarrow>
         (case full_name func of
            Inl e \<Rightarrow> if exc_class e = AttributeError then Inr func else Inl e
          | Inr f_name \<Rightarrow> if f_name \<noteq> PyNone then Inr f_name else Inr func))"
| "full_name (Number m v) = Inr (slot_value m)"
| "full_name (String m v) = Inr (slot_value m)"
| "full_name (Dictionary m ks vs) = Inr (slot_value m)"
| "full_name (Compare m l ops cs) = Inr (slot_value m)"
| "full_name (FunctionDef m n a b d r) = Inr (slot_value m)"
| "full_name (Arguments m a va ko kw d kd) = Inr (slot_value m)"
| "full_name (BinOp m op l r) = Inr (slot_value m)"
| "full_name (Print m vs d) = Inr (slot_value m)"
| "full_name PyNone = Inl (no_attribute ''full_name'')"
| "full_name (PyInt i) = Inl (no_attribute ''full_name'')"
| "full_name (PyStr s) = Inl (no_attribute ''full_name'')"
| "full_name (PyList xs) = Inl (no_attribute ''full_name'')"
| "full_name (PyDict d) = Inl (no_attribute ''full_name'')"

text \<open>\<open>isinstance(x, Import)\<close>\<close>

fun isinstance_Import :: "node \<Rightarrow> bool" where
  "isinstance_Import (Import m module alias import_type) = True"
| "isinstance_Import _ = False"

text \<open>\<open>isinstance(x, BASIC_ELEMENTS)\<close>, with \<open>BASIC_ELEMENTS = (str, int)\<close>.\<close>

fun is_basic_element :: "node \<Rightarrow> bool" where
  "is_basic_element (PyInt i) = True"
| "is_basic_element (PyStr s) = True"
| "is_basic_element _ = False"

text \<open>
  One loop of \<open>Dictionary.is_static\<close>, over the results of the elements: the first
  element that raises or is not static ends it.
\<close>

fun scan_static :: "(exn + bool) list \<Rightarrow> exn + bool" where
  "scan_static [] = Inr True"
| "scan_static (Inl e # rs) = Inl e"
| "scan_static (Inr False # rs) = Inr False"
| "scan_static (Inr True # rs) = scan_static rs"

text \<open>
  The property \<open>is_static\<close>: \<open>ASTNode.is_static\<close> returns \<open>False\<close>, and only
  \<open>Dictionary\<close> and \<open>BinOp\<close> override it. \<open>BinOp.is_static\<close> is
  \<open>self.left.is_static and self.right.is_static\<close>, which does not look at the right
  operand when the left one is not static. A plain value has no such attribute.
\<close>

fun is_static :: "node \<Rightarrow> exn + bool" where
  "is_static (Dictionary m ks vs) =
     (case scan_static
             (map (\<lambda>x. if is_basic_element x then Inr True else is_static x) ks) of
        Inl e \<Rightarrow> Inl e
      | Inr False \<Rightarrow> Inr False
      | Inr True \<Rightarrow>
          scan_static
            (map (\<lambda>x. if is_basic_element x then Inr True else is_static x) vs))"
| "is_static (BinOp m op l r) =
     (case is_static l of
        Inl e \<Rightarrow> Inl e
      | Inr False \<Rightarrow> Inr False
      | Inr True \<Rightarrow> is_static r)"
| "is_static (Number m v) = Inr False"
| "is_static (String m v) = Inr False"
| "is_static (Var m n v t) = Inr False"
| "is_static (Attribute m s a ac) = Inr False"
| "is_static (Compare m l ops cs) = Inr False"
| "is_static (FunctionDef m n a b d r) = Inr False"
| "is_static (Call m f a k) = Inr False"
| "is_static (Arguments m a va ko kw d kd) = Inr False"
| "is_static (Import m mo al t) = Inr False"
| "is_static (Print m vs d) = Inr False"
| "is_static PyNone = Inl (no_attribute ''is_static'')"
| "is_static (PyInt i) = Inl (no_attribute ''is_static'')"
| "is_static (PyStr s) = Inl (no_attribute ''is_static'')"
| "is_static (PyList xs) = Inl (no_attribute ''is_static'')"
| "is_static (PyDict d) = Inl (no_attribute ''is_static'')"

section \<open>Call signatures (inspect.Signature, as Call.get_signature and Call.bind use it)\<close>

text \<open>
  \<open>inspect.Parameter\<close>: name, kind and default (\<open>None\<close> here is \<open>Parameter.empty\<close>;
  a default that is Python's \<open>None\<close> is \<open>Some PyNone\<close>). Parameter names are taken to
  be identifiers, so the name check of the \<open>Parameter\<close> constructor passes.
\<close>

datatype param_kind =
  POSITIONAL_ONLY | POSITIONAL_OR_KEYWORD | VAR_POSITIONAL | KEYWORD_ONLY | VAR_KEYWORD

fun kind_rank :: "param_kind \<Rightarrow> nat" where
  "kind_rank POSITIONAL_ONLY = 0"
| "kind_rank POSITIONAL_OR_KEYWORD = 1"
| "kind_rank VAR_POSITIONAL = 2"
| "kind_rank KEYWORD_ONLY = 3"
| "kind_rank VAR_KEYWORD = 4"

datatype parameter =
  Parameter (p_name: string) (p_kind: param_kind) (p_default: "node option")

text \<open>
  The checks of \<open>Signature.__init__\<close> over the parameters in order: kinds do not
  decrease, a positional parameter without default does not follow one with a default of
  the same kind, and no name occurs twice. The arguments are the highest kind so far,
  whether a default was seen for it, and the names so far.
\<close>

fun validate_parameters ::
  "param_kind \<Rightarrow> bool \<Rightarrow> string list \<Rightarrow> parameter list \<Rightarrow> exn + unit" where
  "validate_parameters top_kind kind_defaults seen [] = Inr ()"
| "validate_parameters top_kind kind_defaults seen (p # ps) =
     (if kind_rank (p_kind p) < kind_rank top_kind
      then Inl (Exn ValueError [''wrong parameter order''])
      else
        let kd = (if kind_rank (p_kind p) > kind_rank top_kind then False else kind_defaults);
            top = (if kind_rank (p_kind p) > kind_rank top_kind then p_kind p else top_kind);
            positional = (p_kind p = POSITIONAL_ONLY \<or> p_kind p = POSITIONAL_OR_KEYWORD)
        in if positional \<and> p_default p = None \<and> kd
           then Inl (Exn ValueError [''non-default argument follows default argument''])
           else if p_name p \<in> set seen
           then Inl (Exn ValueError [''duplicate parameter name: '' @ py_repr (p_name p)])
           else validate_parameters top
                  (if positional \<and> p_default p \<noteq> None then True else kd)
                  (p_name p # seen) ps)"

definition Signature :: "parameter list \<Rightarrow> exn + parameter list" where
  "Signature params =
     (case validate_parameters POSITIONAL_ONLY False [] params of
        Inl e \<Rightarrow> Inl e
      | Inr u \<Rightarrow> Inr params)"

text \<open>
  \<open>Call.get_signature\<close>: the names of \<open>sig_args\<close> become positional-only parameters,
  the items of \<open>sig_kwargs\<close> positional-or-keyword parameters with their defaults, and a
  non-empty \<open>aura_capture_kwargs\<close> a var-keyword parameter. \<open>aura_capture_args\<close> is
  accepted and not used.
\<close>

definition get_signature ::
  "string list \<Rightarrow> string option \<Rightarrow> string option \<Rightarrow> (string \<times> node) list
   \<Rightarrow> exn + parameter list" where
  "get_signature sig_args aura_capture_args aura_capture_kwargs sig_kwargs =
     Signature
       (map (\<lambda>x. Parameter x POSITIONAL_ONLY None) sig_args
        @ map (\<lambda>(k, v). Parameter k POSITIONAL_OR_KEYWORD (Some v)) sig_kwargs
        @ (case aura_capture_kwargs of
             None \<Rightarrow> []
           | Some n \<Rightarrow> if n \<noteq> [] then [Parameter n VAR_KEYWORD None] else []))"

text \<open>
  A bound argument is a value, the tuple of a var-positional parameter, or the dict of a
  var-keyword parameter. \<open>BoundArguments\<close> holds the signature and the ordered mapping
  \<open>arguments\<close>.
\<close>

datatype bound_value = BVal node | BTuple "node list" | BDict "(string \<times> node) list"

datatype bound_arguments =
  BoundArguments (b_signature: "parameter list") (arguments: "(string \<times> bound_value) list")

text \<open>
  \<open>Signature._bind\<close> (CPython 3.7, \<open>partial=False\<close>), first loop: positional arguments
  against the parameters in order. The result is the parameters left for the second loop
  (with the parameter the loop stopped at, where \<open>parameters_ex\<close> holds it) and the
  arguments bound so far.
\<close>

fun bind_positional ::
  "parameter list \<Rightarrow> node list \<Rightarrow> (string \<times> node) list \<Rightarrow> (string \<times> bound_value) list
   \<Rightarrow> exn + (parameter list \<times> (string \<times> bound_value) list)" where
  "bind_positional [] [] kwargs acc = Inr ([], acc)"
| "bind_positional (p # ps) [] kwargs acc =
     (if p_kind p = VAR_POSITIONAL then Inr (ps, acc)
      else if p_name p \<in> fst ` set kwargs then
        (if p_kind p = POSITIONAL_ONLY
         then Inl (Exn TypeError
                [py_repr (p_name p) @ '' parameter is positional only, but was passed as a keyword''])
         else Inr (p # ps, acc))
      else if p_kind p = VAR_KEYWORD \<or> p_default p \<noteq> None then Inr (p # ps, acc)
      else Inl (Exn TypeError [''missing a required argument: '' @ py_repr (p_name p)]))"
| "bind_positional [] (a # as) kwargs acc =
     Inl (Exn TypeError [''too many positional arguments''])"
| "bind_positional (p # ps) (a # as) kwargs acc =
     (if p_kind p = VAR_KEYWORD \<or> p_kind p = KEYWORD_ONLY
      then Inl (Exn TypeError [''too many positional arguments''])
      else if p_kind p = VAR_POSITIONAL
      then Inr (ps, acc @ [(p_name p, BTuple (a # as))])
      else if p_name p \<in> fst ` set kwargs
      then Inl (Exn TypeError [''multiple values for argument '' @ py_repr (p_name p)])
      else bind_positional ps as kwargs (acc @ [(p_name p, BVal a)]))"

text \<open>
  Second loop: the remaining parameters take their values from the keywords, which are
  popped. The result is the keywords left, the arguments, and the var-keyword parameter
  if one was met.
\<close>

fun bind_keywords ::
  "parameter list \<Rightarrow> (string \<times> node) list \<Rightarrow> (string \<times> bound_value) list
   \<Rightarrow> parameter option
   \<Rightarrow> exn + ((string \<times> node) list \<times> (string \<times> bound_value) list \<times> parameter option)" where
  "bind_keywords [] kwargs acc kwargs_param = Inr (kwargs, acc, kwargs_param)"
| "bind_keywords (p # ps) kwargs acc kwargs_param =
     (if p_kind p = VAR_KEYWORD then bind_keywords ps kwargs acc (Some p)
      else if p_kind p = VAR_POSITIONAL then bind_keywords ps kwargs acc kwargs_param
      else
        (case map_of kwargs (p_name p) of
           None \<Rightarrow>
             if p_default p = None
             then Inl (Exn TypeError [''missing a required argument: '' @ py_repr (p_name p)])
             else bind_keywords ps kwargs acc kwargs_param
         | Some arg_val \<Rightarrow>
             if p_kind p = POSITIONAL_ONLY
             then Inl (Exn TypeError
                    [py_repr (p_name p) @ '' parameter is positional only, but was passed as a keyword''])
             else bind_keywords ps (filter (\<lambda>(k, v). k \<noteq> p_name p) kwargs)
                    (acc @ [(p_name p, BVal arg_val)]) kwargs_param))"

definition signature_bind ::
  "parameter list \<Rightarrow> node list \<Rightarrow> (string \<times> node) list \<Rightarrow> exn + bound_arguments" where
  "signature_bind sig args kwargs =
     (case bind_positional sig args kwargs [] of
        Inl e \<Rightarrow> Inl e
      | Inr (rest, acc) \<Rightarrow>
         (case bind_keywords rest kwargs acc None of
            Inl e \<Rightarrow> Inl e
          | Inr (kw, acc', kwargs_param) \<Rightarrow>
              if kw \<noteq> [] then
                (case kwargs_param of
                   Some kp \<Rightarrow> Inr (BoundArguments sig (acc' @ [(p_name kp, BDict kw)]))
                 | None \<Rightarrow>
                     Inl (Exn TypeError
                       [''got an unexpected keyword argument '' @ py_repr (fst (hd kw))]))
              else Inr (BoundArguments sig acc')))"

text \<open>
  The property \<open>BoundArguments.args\<close>: the bound values of the parameters in order, up to
  the first keyword-only or var-keyword parameter or the first parameter without a bound
  value; the tuple of a var-positional parameter is spliced in.
\<close>

fun collect_args :: "parameter list \<Rightarrow> (string \<times> bound_value) list \<Rightarrow> node list" where
  "collect_args [] bnd = []"
| "collect_args (p # ps) bnd =
     (if p_kind p = VAR_KEYWORD \<or> p_kind p = KEYWORD_ONLY then []
      else
        (case map_of bnd (p_name p) of
           None \<Rightarrow> []
         | Some (BVal v) \<Rightarrow> v # collect_args ps bnd
         | Some (BTuple vs) \<Rightarrow>
             (if p_kind p = VAR_POSITIONAL then vs @ collect_args ps bnd
              else PyList vs # collect_args ps bnd)
         | Some (BDict d) \<Rightarrow> PyDict d # collect_args ps bnd))"

definition bound_args :: "bound_arguments \<Rightarrow> node list" where
  "bound_args b = collect_args (b_signature b) (arguments b)"

text \<open>
  \<open>Dictionary.to_dict\<close> is \<open>dict(zip(self.keys, self.values))\<close>. A key must be
  hashable: plain \<open>None\<close>, integers and strings are, a \<open>Var\<close> is (it defines
  \<open>__hash__\<close>), lists and dicts are not, and neither is any other node class (a dataclass
  that compares by value and defines no \<open>__hash__\<close>). A key that is already present keeps
  its place and takes the new value.
\<close>

fun hashable :: "node \<Rightarrow> bool" where
  "hashable PyNone = True"
| "hashable (PyInt i) = True"
| "hashable (PyStr s) = True"
| "hashable (Var m n v t) = True"
| "hashable _ = False"

fun dict_set :: "('k \<times> 'v) list \<Rightarrow> 'k \<Rightarrow> 'v \<Rightarrow> ('k \<times> 'v) list" where
  "dict_set [] k v = [(k, v)]"
| "dict_set ((k', v') # d) k v = (if k' = k then (k', v) # d else (k', v') # dict_set d k v)"

fun dict_of_pairs :: "(node \<times> node) list \<Rightarrow> (node \<times> node) list \<Rightarrow> exn + (node \<times> node) list" where
  "dict_of_pairs d [] = Inr d"
| "dict_of_pairs d ((k, v) # kvs) =
     (if hashable k then dict_of_pairs (dict_set d k v) kvs
      else Inl (Exn TypeError [''unhashable type'']))"

definition to_dict :: "node list \<Rightarrow> node list \<Rightarrow> exn + (node \<times> node) list" where
  "to_dict ks vs = dict_of_pairs [] (zip ks vs)"

text \<open>The call \<open>f(**kw)\<close> of a dict: every key must be a string.\<close>

fun keyword_items :: "(node \<times> node) list \<Rightarrow> exn + (string \<times> node) list" where
  "keyword_items [] = Inr []"
| "keyword_items ((k, v) # kvs) =
     (case k of
        PyStr s \<Rightarrow>
          (case keyword_items kvs of Inl e \<Rightarrow> Inl e | Inr r \<Rightarrow> Inr ((s, v) # r))
      | _ \<Rightarrow> Inl (Exn TypeError [''keywords must be strings'']))"

text \<open>
  \<open>Call.bind\<close>: a \<open>Dictionary\<close> node as \<open>kwargs\<close> is turned into a dict first; then
  \<open>signature.bind(*self.args, **kw)\<close>. Only a dict can follow \<open>**\<close>. The method exists
  on \<open>Call\<close> nodes only.
\<close>

fun bind :: "node \<Rightarrow> parameter list \<Rightarrow> exn + bound_arguments" where
  "bind (Call m func args kwargs) sig =
     (case kwargs of
        Dictionary dm ks vs \<Rightarrow>
          (case to_dict ks vs of
             Inl e \<Rightarrow> Inl e
           | Inr kw \<Rightarrow>
               (case keyword_items kw of
                  Inl e \<Rightarrow> Inl e
                | Inr kw' \<Rightarrow> signature_bind sig args kw'))
      | PyDict kw \<Rightarrow> signature_bind sig args kw
      | _ \<Rightarrow> Inl (Exn TypeError [''argument after ** must be a mapping'']))"
| "bind n sig = Inl (no_attribute ''bind'')"

fun apply_signature ::
  "node \<Rightarrow> string list \<Rightarrow> string option \<Rightarrow> string option \<Rightarrow> (string \<times> node) list
   \<Rightarrow> exn + bound_arguments" where
  "apply_signature (Call m func args kwargs) sig_args aura_capture_args aura_capture_kwargs
       sig_kwargs =
     (case get_signature sig_args aura_capture_args aura_capture_kwargs sig_kwargs of
        Inl e \<Rightarrow> Inl e
      | Inr sig \<Rightarrow> bind (Call m func args kwargs) sig)"
| "apply_signature n sig_args aura_capture_args aura_capture_kwargs sig_kwargs =
     Inl (no_attribute ''apply_signature'')"

section \<open>Findings and configuration\<close>

text \<open>
  A finding is an instance of a subclass of \<open>Rule\<close>. The base class is defined outside
  the modules given here, so a field is \<open>None\<close> when the constructor call does not pass
  it (the default of the base class applies then), and \<open>Some\<close> of what the call passes
  or of what is assigned later. \<open>extra\<close> is the dict of the call, in the order it is
  written.
\<close>

datatype rule_class = SuspiciousArchiveEntry | ArchiveAnomaly | CryptoKeyGeneration

datatype xval = XNone | XInt int | XStr string | XNode node

record finding =
  rule :: rule_class
  location :: "string option"
  message :: "string option"
  signature :: "string option"
  score :: "int option"
  extra :: "(string \<times> xval) list"

text \<open>The score a finding ends up with, given the default score of the base class.\<close>

definition effective_score :: "int \<Rightarrow> finding \<Rightarrow> int" where
  "effective_score rule_default f = (case score f of None \<Rightarrow> rule_default | Some v \<Rightarrow> v)"

text \<open>
  Modelled from the spec: the base class \<open>Rule\<close> (\<open>analyzers/rules.py\<close>), and with it
  the score of a finding whose constructor call passes none, is not among the given
  modules. The spec gives the finding of an oversized entry in the general case, which
  \<open>filter_zip\<close> builds without a score, the default severity 10.
\<close>

definition Rule_default_score :: int where
  "Rule_default_score = 10"

text \<open>
  The configuration the analyzers read, and \<open>utils.normalize_path\<close>, which is defined
  outside the modules given here and is a parameter.
\<close>

record env =
  scores :: "(string \<times> int) list"
  maximum_archive_size :: "int option"
  normalize_path :: "string \<Rightarrow> string"

text \<open>
  Modelled from the spec: \<open>config.get_score_or_default(rule_name, default)\<close> is not in
  the given \<open>config.py\<close>. It is a side-effect-free read of the configuration that
  returns an integer: the configured score of the rule, or the default when none is
  configured.
\<close>

definition get_score_or_default :: "env \<Rightarrow> string \<Rightarrow> int \<Rightarrow> int" where
  "get_score_or_default e rule_name dflt =
     (case map_of (scores e) rule_name of None \<Rightarrow> dflt | Some v \<Rightarrow> v)"

text \<open>
  Modelled from the spec: \<open>config.get_maximum_archive_size()\<close> is not in the given
  \<open>config.py\<close>. It is a side-effect-free read of the configuration that returns an
  integer or none.
\<close>

definition get_maximum_archive_size :: "env \<Rightarrow> int option" where
  "get_maximum_archive_size e = maximum_archive_size e"

section \<open>Key generation rule (aura/analyzers/python/crypto.py)\<close>

record target =
  tg_type :: string
  tg_lib :: string

definition CRYPTO_GEN_KEYS :: "(string \<times> target) list" where
  "CRYPTO_GEN_KEYS =
     [(''cryptography.hazmat.primitives.asymmetric.dsa.generate_private_key'',
         \<lparr>tg_type = ''dsa'', tg_lib = ''cryptography''\<rparr>),
      (''cryptography.hazmat.primitives.asymmetric.dsa.generate_parameters'',
         \<lparr>tg_type = ''dsa'', tg_lib = ''cryptography''\<rparr>),
      (''cryptography.hazmat.primitives.asymmetric.rsa.generate_private_key'',
         \<lparr>tg_type = ''rsa'', tg_lib = ''cryptography''\<rparr>),
      (''cryptography.hazmat.primitives.asymmetric.rsa.generate_parameters'',
         \<lparr>tg_type = ''rsa'', tg_lib = ''cryptography''\<rparr>),
      (''Crypto.PublicKey.DSA.generate'', \<lparr>tg_type = ''dsa'', tg_lib = ''crypto''\<rparr>),
      (''Crypto.PublicKey.RSA.generate'', \<lparr>tg_type = ''rsa'', tg_lib = ''crypto''\<rparr>),
      (''Cryptodome.PublicKey.DSA.generate'', \<lparr>tg_type = ''dsa'', tg_lib = ''crypto''\<rparr>),
      (''Cryptodome.PublicKey.RSA.generate'', \<lparr>tg_type = ''rsa'', tg_lib = ''crypto''\<rparr>)]"

definition MIN_KEY_SIZES :: "(string \<times> int) list" where
  "MIN_KEY_SIZES = [(''rsa'', 2048), (''dsa'', 2048)]"

fun node_meta :: "node \<Rightarrow> meta option" where
  "node_meta (Number m v) = Some m"
| "node_meta (String m v) = Some m"
| "node_meta (Dictionary m ks vs) = Some m"
| "node_meta (Var m n v t) = Some m"
| "node_meta (Attribute m s a ac) = Some m"
| "node_meta (Compare m l ops cs) = Some m"
| "node_meta (FunctionDef m n a b d r) = Some m"
| "node_meta (Call m f a k) = Some m"
| "node_meta (Arguments m a va ko kw d kd) = Some m"
| "node_meta (Import m mo al t) = Some m"
| "node_meta (BinOp m op l r) = Some m"
| "node_meta (Print m vs d) = Some m"
| "node_meta PyNone = None"
| "node_meta (PyInt i) = None"
| "node_meta (PyStr s) = None"
| "node_meta (PyList xs) = None"
| "node_meta (PyDict d) = None"

fun to_xval :: "node \<Rightarrow> xval" where
  "to_xval PyNone = XNone"
| "to_xval (PyInt i) = XInt i"
| "to_xval (PyStr s) = XStr s"
| "to_xval n = XNode n"

text \<open>
  \<open>CryptoGenKey._gen_hit\<close>, for the node and the path of the visitor that the context
  holds. The score is assigned only for a key size below the minimum of the key type.
\<close>

definition gen_hit :: "string \<Rightarrow> node \<Rightarrow> target \<Rightarrow> int option \<Rightarrow> exn + finding" where
  "gen_hit path n info key_size =
     (case node_meta n of
        None \<Rightarrow> Inl (no_attribute ''line_no'')
      | Some m \<Rightarrow>
         (case full_name n of
            Inl e \<Rightarrow> Inl e
          | Inr f_name \<Rightarrow>
              let hit = \<lparr>rule = CryptoKeyGeneration,
                         location = None,
                         message = Some ''Generation of cryptography key detected'',
                         signature = Some (''crypto#gen_key#'' @ path @ ''#''
                                           @ str_int_option (line_no m)),
                         score = None,
                         extra = [(''function'', to_xval f_name),
                                  (''key_type'', XStr (tg_type info)),
                                  (''key_size'',
                                     (case key_size of None \<Rightarrow> XNone | Some k \<Rightarrow> XInt k))]\<rparr>
              in (case key_size of
                    None \<Rightarrow> Inr hit
                  | Some k \<Rightarrow>
                      if k < (case map_of MIN_KEY_SIZES (tg_type info) of
                                None \<Rightarrow> 0 | Some v \<Rightarrow> v)
                      then Inr (hit\<lparr>score := Some 100\<rparr>)
                      else Inr hit)))"

text \<open>
  The common body of \<open>_lib_cryptography\<close> and \<open>_lib_crypto\<close> after the signature is
  applied: a TypeError of the binding ends the generator with nothing; the first bound
  positional value must be a \<open>Number\<close> node or an integer.
\<close>

definition hit_of_binding ::
  "string \<Rightarrow> node \<Rightarrow> target \<Rightarrow> exn + bound_arguments \<Rightarrow> exn + finding list" where
  "hit_of_binding path n info bound =
     (case bound of
        Inl e \<Rightarrow> if exc_class e = TypeError then Inr [] else Inl e
      | Inr sg \<Rightarrow>
         (case bound_args sg of
            [] \<Rightarrow> Inl (Exn IndexError [''tuple index out of range''])
          | key_size # rest \<Rightarrow>
             (case key_size of
                Number m v \<Rightarrow>
                  (case gen_hit path n info (Some v) of
                     Inl e \<Rightarrow> Inl e | Inr hit \<Rightarrow> Inr [hit])
              | PyInt v \<Rightarrow>
                  (case gen_hit path n info (Some v) of
                     Inl e \<Rightarrow> Inl e | Inr hit \<Rightarrow> Inr [hit])
              | _ \<Rightarrow> Inr [])))"

definition lib_cryptography :: "string \<Rightarrow> node \<Rightarrow> target \<Rightarrow> exn + finding list" where
  "lib_cryptography path n info =
     hit_of_binding path n info
       (apply_signature n [''key_size''] None None [(''backend'', PyNone)])"

definition lib_crypto :: "string \<Rightarrow> node \<Rightarrow> target \<Rightarrow> exn + finding list" where
  "lib_crypto path n info =
     hit_of_binding path n info
       (apply_signature n [''bits''] None None [(''randfunc'', PyNone), (''domain'', PyNone)])"

text \<open>
  \<open>CryptoGenKey.node_Call\<close>: the findings the generator yields, or the exception it
  ends with. The handler is looked up by the name \<open>_lib_\<close> followed by the library of the
  catalogue entry.
\<close>

definition node_Call :: "string \<Rightarrow> node \<Rightarrow> exn + finding list" where
  "node_Call path n =
     (case full_name n of
        Inl e \<Rightarrow> Inl e
      | Inr f_name \<Rightarrow>
         (case f_name of
            PyStr s \<Rightarrow>
              (case map_of CRYPTO_GEN_KEYS s of
                 None \<Rightarrow> Inr []
               | Some tgt \<Rightarrow>
                   if tg_lib tgt = ''cryptography'' then lib_cryptography path n tgt
                   else if tg_lib tgt = ''crypto'' then lib_crypto path n tgt
                   else Inl (no_attribute (''_lib_'' @ tg_lib tgt)))
          | _ \<Rightarrow> Inr []))"

section \<open>Archive entries (aura/analyzers/archive.py)\<close>

definition SUPPORTED_MIME :: "string list" where
  "SUPPORTED_MIME =
     [''application/x-gzip'', ''application/gzip'', ''application/x-bzip2'',
      ''application/zip'']"

text \<open>\<open>str.startswith\<close> and \<open>str.split\<close> with a one-character separator.\<close>

definition startswith :: "string \<Rightarrow> string \<Rightarrow> bool" where
  "startswith s p = (take (length p) s = p)"

fun split_sep :: "char \<Rightarrow> string \<Rightarrow> string list" where
  "split_sep c [] = [[]]"
| "split_sep c (x # xs) =
     (if x = c then [] # split_sep c xs
      else (case split_sep c xs of
              [] \<Rightarrow> [[x]]
            | w # ws \<Rightarrow> (x # w) # ws))"

text \<open>
  \<open>Path(pth).parts\<close> on a POSIX system (\<open>pathlib\<close>, one argument): the root, if the
  path has one (two leading slashes are kept as they are, any other number is one slash),
  then the components between slashes that are neither empty nor a single dot.
\<close>

definition splitroot :: "string \<Rightarrow> string \<times> string" where
  "splitroot part =
     (if part \<noteq> [] \<and> hd part = CHR ''/'' then
        let stripped_part = dropWhile (\<lambda>c. c = CHR ''/'') part
        in if length part - length stripped_part = 2 then (''//'', stripped_part)
           else (''/'', stripped_part)
      else ([], part))"

definition path_parts :: "string \<Rightarrow> string list" where
  "path_parts pth =
     (if pth = [] then []
      else
        let (root, rel) = splitroot pth;
            parsed = (if CHR ''/'' \<in> set rel
                      then filter (\<lambda>x. x \<noteq> [] \<and> x \<noteq> ''.'') (split_sep CHR ''/'' rel)
                      else if rel \<noteq> [] \<and> rel \<noteq> ''.'' then [rel] else [])
        in (if root \<noteq> [] then [root] else []) @ parsed)"

text \<open>
  \<open>is_suspicious\<close>: the finding for an entry path, or \<open>None\<close>. Here \<open>loc\<close> is the
  path of the archive.
\<close>

definition is_suspicious :: "env \<Rightarrow> string \<Rightarrow> string \<Rightarrow> finding option" where
  "is_suspicious e pth loc =
     (let norm = normalize_path e pth in
      if startswith pth ''/'' then
        Some \<lparr>rule = SuspiciousArchiveEntry,
              location = Some (normalize_path e loc),
              message = None,
              signature = Some (''suspicious_archive_entry#absolute_path#'' @ norm @ ''#'' @ loc),
              score = Some (get_score_or_default e ''suspicious-archive-entry-absolute-path'' 50),
              extra = [(''entry_type'', XStr ''absolute_path''), (''entry_path'', XStr norm)]\<rparr>
      else if list_ex (\<lambda>x. x = ''..'') (path_parts pth) then
        Some \<lparr>rule = SuspiciousArchiveEntry,
              location = Some (normalize_path e loc),
              message = None,
              signature = Some (''suspicious_archive_entry#parent_reference#'' @ norm @ ''#'' @ loc),
              score = Some (get_score_or_default e ''suspicious-archive-entry-parent-reference'' 50),
              extra = [(''entry_type'', XStr ''parent_reference''), (''entry_path'', XStr norm)]\<rparr>
      else None)"

text \<open>\<open>zipfile.ZipInfo\<close> and \<open>tarfile.TarInfo\<close>, with the fields the filters read.\<close>

record zip_info =
  filename :: string
  file_size :: int

datatype tar_type =
    REGTYPE | AREGTYPE | LNKTYPE | SYMTYPE | CHRTYPE | BLKTYPE | DIRTYPE | FIFOTYPE
  | CONTTYPE | GNUTYPE_SPARSE

record tar_info =
  t_name :: string
  t_size :: int
  t_type :: tar_type

definition isdir :: "tar_info \<Rightarrow> bool" where
  "isdir member = (t_type member = DIRTYPE)"

definition issym :: "tar_info \<Rightarrow> bool" where
  "issym member = (t_type member = SYMTYPE)"

definition islnk :: "tar_info \<Rightarrow> bool" where
  "islnk member = (t_type member = LNKTYPE)"

definition isfile :: "tar_info \<Rightarrow> bool" where
  "isfile member = (t_type member \<in> {REGTYPE, AREGTYPE, CONTTYPE, GNUTYPE_SPARSE})"

text \<open>
  The finding of an entry whose size exceeds the limit. \<open>filter_zip\<close> passes no score;
  \<open>filter_tar\<close> passes \<open>config.get_score_or_default("archive-file-size-exceeded", 100)\<close>.
\<close>

definition size_hit :: "string \<Rightarrow> string \<Rightarrow> int \<Rightarrow> int \<Rightarrow> int option \<Rightarrow> finding" where
  "size_hit path pth sz max_size sc =
     \<lparr>rule = ArchiveAnomaly,
      location = Some path,
      message = Some ''Archive contain a file that exceed the configured maximum size'',
      signature = Some (''archive_anomaly#size#'' @ path @ ''#'' @ pth),
      score = sc,
      extra = [(''archive_path'', XStr pth), (''reason'', XStr ''file_size_exceeded''),
               (''size'', XInt sz), (''limit'', XInt max_size)]\<rparr>"

text \<open>
  One round of the loop of \<open>filter_zip\<close>: what it yields for the entry \<open>x\<close>, a finding
  (\<open>Inl\<close>) or the entry itself (\<open>Inr\<close>).
\<close>

definition zip_entry :: "env \<Rightarrow> string \<Rightarrow> int option \<Rightarrow> zip_info \<Rightarrow> finding + zip_info" where
  "zip_entry e path max_size x =
     (case is_suspicious e (filename x) path of
        Some res \<Rightarrow> Inl res
      | None \<Rightarrow>
         (case max_size of
            Some m \<Rightarrow>
              if file_size x > m then Inl (size_hit path (filename x) (file_size x) m None)
              else Inr x
          | None \<Rightarrow> Inr x))"

definition filter_zip ::
  "env \<Rightarrow> zip_info list \<Rightarrow> string \<Rightarrow> int option \<Rightarrow> (finding + zip_info) list" where
  "filter_zip e arch path max_size =
     (let max_size' = (case max_size of
                         None \<Rightarrow> get_maximum_archive_size e
                       | Some m \<Rightarrow> Some m)
      in map (zip_entry e path max_size') arch)"

text \<open>
  One round of the loop of \<open>filter_tar\<close>: nothing, a finding, or the member itself.
\<close>

definition tar_member ::
  "env \<Rightarrow> string \<Rightarrow> int option \<Rightarrow> tar_info \<Rightarrow> (finding + tar_info) list" where
  "tar_member e path max_size member =
     (case is_suspicious e (t_name member) path of
        Some res \<Rightarrow> [Inl res]
      | None \<Rightarrow>
          if isdir member then [Inr member]
          else if issym member \<or> islnk member then []
          else if isfile member then
            (case max_size of
               Some m \<Rightarrow>
                 if t_size member > m
                 then [Inl (size_hit path (t_name member) (t_size member) m
                              (Some (get_score_or_default e ''archive-file-size-exceeded'' 100)))]
                 else [Inr member]
             | None \<Rightarrow> [Inr member])
          else [])"

text \<open>
  \<open>filter_tar\<close>. When \<open>max_size\<close> is \<open>None\<close> the function calls
  \<open>config.get_maximum_archive_size()\<close> and does not assign the result, so \<open>max_size\<close>
  stays \<open>None\<close> in the loop.
\<close>

definition filter_tar ::
  "env \<Rightarrow> tar_info list \<Rightarrow> string \<Rightarrow> int option \<Rightarrow> (finding + tar_info) list" where
  "filter_tar e arch path max_size =
     (let unused = (if max_size = None then get_maximum_archive_size e else None)
      in concat (map (tar_member e path max_size) arch))"

section \<open>Scan locations and the archive analyzer\<close>

text \<open>
  Modelled from the spec: the class \<open>ScanLocation\<close> (\<open>uri_handlers/base.py\<close>) is not
  among the given modules. A scan location is a path, a metadata mapping that includes
  the detected content type, an optional parent and the flag \<open>cleanup\<close>;
  \<open>create_child\<close> makes the location of a new path that copies the metadata and records
  the parent.
\<close>

datatype scan_location =
  ScanLocation (sl_location: string) (sl_metadata: "(string \<times> string) list")
    (sl_parent: "scan_location option") (sl_cleanup: bool)

definition create_child :: "scan_location \<Rightarrow> string \<Rightarrow> bool \<Rightarrow> scan_location" where
  "create_child parent new_location cleanup =
     ScanLocation new_location (sl_metadata parent) (Some parent) cleanup"

text \<open>
  What the analyzer asks of the file system and of the archive libraries: whether a path
  is a directory, the directory \<open>mkdtemp\<close> creates for a prefix and a suffix, the entries
  of the archive at a path or the exception opening or listing it raises, and the
  exception, if any, that extracting an entry into a directory raises.
\<close>

record world =
  is_dir :: "string \<Rightarrow> bool"
  mkdtemp :: "string \<Rightarrow> string \<Rightarrow> string"
  open_zip :: "string \<Rightarrow> exn + zip_info list"
  open_tar :: "string \<Rightarrow> exn + tar_info list"
  extract_zip :: "zip_info \<Rightarrow> string \<Rightarrow> exn option"
  extract_tar :: "tar_info \<Rightarrow> string \<Rightarrow> exn option"

text \<open>
  A generator is the sequence of what it does until it ends: the items it yields and the
  entries it extracts, in order, and the exception it ends with, if any.
\<close>

datatype item = Loc scan_location | Hit finding

datatype event = Yield item | ExtractZip zip_info string | ExtractTar tar_info string

text \<open>\<open>os.path.basename\<close> on a POSIX system.\<close>

definition basename :: "string \<Rightarrow> string" where
  "basename p = rev (takeWhile (\<lambda>c. c \<noteq> CHR ''/'') (rev p))"

text \<open>\<open>ArchiveAnomaly.from_generic_exception\<close>\<close>

definition from_generic_exception :: "env \<Rightarrow> scan_location \<Rightarrow> exn \<Rightarrow> exn + finding" where
  "from_generic_exception e loc exc =
     (case exc_args exc of
        [] \<Rightarrow> Inl (Exn IndexError [''tuple index out of range''])
      | msg # rest \<Rightarrow>
         (case map_of (sl_metadata loc) ''mime'' of
            None \<Rightarrow> Inl (Exn KeyError [py_repr ''mime''])
          | Some mime \<Rightarrow>
              Inr \<lparr>rule = ArchiveAnomaly,
                   location = Some (sl_location loc),
                   message = Some ''Could not open the archive for analysis'',
                   signature = Some (''archive_anomaly#read_error#'' @ sl_location loc),
                   score = Some (get_score_or_default e ''corrupted-archive'' 10),
                   extra = [(''reason'', XStr ''archive_read_error''),
                            (''exc_message'', XStr msg),
                            (''exc_type'', XStr (class_name (exc_class exc))),
                            (''mime'', XStr mime)]\<rparr>))"

text \<open>
  The loops of \<open>process_zipfile\<close> and \<open>process_tarfile\<close> over what the filter yields: an
  entry is extracted, anything else is yielded. An exception of the extraction ends the
  loop.
\<close>

fun extract_zip_entries ::
  "world \<Rightarrow> string \<Rightarrow> (finding + zip_info) list \<Rightarrow> event list \<times> exn option" where
  "extract_zip_entries w tmp_dir [] = ([], None)"
| "extract_zip_entries w tmp_dir (Inl hit # xs) =
     (let (evs, r) = extract_zip_entries w tmp_dir xs in (Yield (Hit hit) # evs, r))"
| "extract_zip_entries w tmp_dir (Inr x # xs) =
     (case extract_zip w x tmp_dir of
        Some exc \<Rightarrow> ([ExtractZip x tmp_dir], Some exc)
      | None \<Rightarrow>
          (let (evs, r) = extract_zip_entries w tmp_dir xs in (ExtractZip x tmp_dir # evs, r)))"

fun extract_tar_entries ::
  "world \<Rightarrow> string \<Rightarrow> (finding + tar_info) list \<Rightarrow> event list \<times> exn option" where
  "extract_tar_entries w tmp_dir [] = ([], None)"
| "extract_tar_entries w tmp_dir (Inl hit # xs) =
     (let (evs, r) = extract_tar_entries w tmp_dir xs in (Yield (Hit hit) # evs, r))"
| "extract_tar_entries w tmp_dir (Inr x # xs) =
     (case extract_tar w x tmp_dir of
        Some exc \<Rightarrow> ([ExtractTar x tmp_dir], Some exc)
      | None \<Rightarrow>
          (let (evs, r) = extract_tar_entries w tmp_dir xs in (ExtractTar x tmp_dir # evs, r)))"

definition process_zipfile :: "env \<Rightarrow> world \<Rightarrow> string \<Rightarrow> string \<Rightarrow> event list \<times> exn option" where
  "process_zipfile e w path tmp_dir =
     (case open_zip w path of
        Inl exc \<Rightarrow> ([], Some exc)
      | Inr fd \<Rightarrow> extract_zip_entries w tmp_dir (filter_zip e fd path None))"

definition process_tarfile :: "env \<Rightarrow> world \<Rightarrow> string \<Rightarrow> string \<Rightarrow> event list \<times> exn option" where
  "process_tarfile e w path tmp_dir =
     (case open_tar w path of
        Inl exc \<Rightarrow> ([], Some exc)
      | Inr fd \<Rightarrow> extract_tar_entries w tmp_dir (filter_tar e fd path None))"

text \<open>
  \<open>archive_analyzer\<close>. The child location is yielded before the \<open>try\<close> block; a
  \<open>tarfile.ReadError\<close> or \<open>zipfile.BadZipFile\<close> raised inside it is turned into a
  finding, any other exception leaves the generator.
\<close>

definition archive_analyzer :: "env \<Rightarrow> world \<Rightarrow> scan_location \<Rightarrow> event list \<times> exn option" where
  "archive_analyzer e w loc =
     (if is_dir w (sl_location loc) then ([], None)
      else
        (case map_of (sl_metadata loc) ''mime'' of
           None \<Rightarrow> ([], Some (Exn KeyError [py_repr ''mime'']))
         | Some mime \<Rightarrow>
             if mime \<notin> set SUPPORTED_MIME then ([], None)
             else
               let tmp_dir = mkdtemp w ''aura_pkg__sandbox'' (basename (sl_location loc));
                   child = Yield (Loc (create_child loc tmp_dir True));
                   (evs, r) =
                     (if mime = ''application/zip''
                      then process_zipfile e w (sl_location loc) tmp_dir
                      else if mime \<in> set SUPPORTED_MIME
                      then process_tarfile e w (sl_location loc) tmp_dir
                      else ([], None))
               in (case r of
                     None \<Rightarrow> (child # evs, None)
                   | Some exc \<Rightarrow>
                       if exc_class exc = ReadError \<or> exc_class exc = BadZipFile then
                         (case from_generic_exception e loc exc of
                            Inl exc' \<Rightarrow> (child # evs, Some exc')
                          | Inr hit \<Rightarrow> (child # evs @ [Yield (Hit hit)], None))
                       else (child # evs, Some exc))))"

section \<open>Example inputs\<close>

definition meta0 :: meta where
  "meta0 = \<lparr>full_name_slot = None, line_no = None\<rparr>"

definition rsa_import :: node where
  "rsa_import =
     Import meta0 ''cryptography.hazmat.primitives.asymmetric.rsa'' ''rsa'' ''from''"

text \<open>\<open>rsa.generate_private_key(key_size=1024)\<close> and \<open>rsa.generate_private_key(1024)\<close>
  on line 7, after \<open>from cryptography.hazmat.primitives.asymmetric import rsa\<close>.\<close>

definition call_keyword :: node where
  "call_keyword =
     Call \<lparr>full_name_slot = None, line_no = Some 7\<rparr>
       (Attribute meta0 rsa_import ''generate_private_key'' ''Load'') []
       (PyDict [(''key_size'', Number meta0 1024)])"

definition call_positional :: node where
  "call_positional =
     Call \<lparr>full_name_slot = None, line_no = Some 7\<rparr>
       (Attribute meta0 rsa_import ''generate_private_key'' ''Load'') [Number meta0 1024]
       (PyDict [])"

text \<open>Configurations without score overrides, without and with a maximum archive size;
  archive entries of size 10; a file system with a tar archive of one entry, and one
  with a zip archive in which extracting the third entry fails and no tar archive can
  be opened.\<close>

definition env_default :: env where
  "env_default = \<lparr>scores = [], maximum_archive_size = None, normalize_path = (\<lambda>p. p)\<rparr>"

definition env_limit5 :: env where
  "env_limit5 = \<lparr>scores = [], maximum_archive_size = Some 5, normalize_path = (\<lambda>p. p)\<rparr>"

definition big_member :: tar_info where
  "big_member = \<lparr>t_name = ''data.bin'', t_size = 10, t_type = REGTYPE\<rparr>"

definition big_entry :: zip_info where
  "big_entry = \<lparr>filename = ''data.bin'', file_size = 10\<rparr>"

definition tar_world :: world where
  "tar_world =
     \<lparr>is_dir = (\<lambda>p. False),
      mkdtemp = (\<lambda>prefix suffix. ''/tmp/'' @ prefix @ ''0001'' @ suffix),
      open_zip = (\<lambda>p. Inl (Exn BadZipFile [''File is not a zip file''])),
      open_tar = (\<lambda>p. Inr [big_member]),
      extract_zip = (\<lambda>x t. None),
      extract_tar = (\<lambda>x t. None)\<rparr>"

definition tar_location :: scan_location where
  "tar_location = ScanLocation ''pkg.tar.gz'' [(''mime'', ''application/gzip'')] None False"

definition zip_world :: world where
  "zip_world =
     \<lparr>is_dir = (\<lambda>p. False),
      mkdtemp = (\<lambda>prefix suffix. ''/tmp/'' @ prefix @ ''0001'' @ suffix),
      open_zip = (\<lambda>p. Inr [\<lparr>filename = ''setup.py'', file_size = 3\<rparr>,
                             \<lparr>filename = ''../../etc/passwd'', file_size = 3\<rparr>,
                             \<lparr>filename = ''broken.py'', file_size = 3\<rparr>,
                             \<lparr>filename = ''README'', file_size = 3\<rparr>]),
      open_tar = (\<lambda>p. Inl (Exn ReadError [''file could not be opened successfully''])),
      extract_zip = (\<lambda>x t. if filename x = ''broken.py''
                             then Some (Exn (OtherError ''OSError'') [''No space left on device''])
                             else None),
      extract_tar = (\<lambda>x t. None)\<rparr>"

definition zip_location :: scan_location where
  "zip_location = ScanLocation ''pkg.zip'' [(''mime'', ''application/zip'')] None False"

section \<open>Auxiliary notions\<close>

text \<open>
  The second loop of the binding ends in a TypeError, or with the keyword \<open>k\<close> still
  among the keywords left and no var-keyword parameter met.
\<close>

definition keyword_left ::
  "string \<Rightarrow> exn + ((string \<times> node) list \<times> (string \<times> bound_value) list \<times> parameter option)
   \<Rightarrow> bool" where
  "keyword_left k r =
     (case r of
        Inl e \<Rightarrow> exc_class e = TypeError
      | Inr (kw', acc', kp) \<Rightarrow> kp = None \<and> k \<in> fst ` set kw')"

section \<open>Properties\<close>

subsection \<open>Taint combination\<close>

text \<open>
  C4. The combine operator on the three taint values is associative and commutative,
  \<open>TAINTED\<close> absorbs every value, \<open>UNKNOWN\<close> absorbs \<open>SAFE\<close>, and two \<open>SAFE\<close>
  values combine to \<open>SAFE\<close>.
\<close>

theorem taint_add_lattice:
  "taint_add a (taint_add b c) = taint_add (taint_add a b) c
   \<and> taint_add a b = taint_add b a
   \<and> taint_add TAINTED x = TAINTED
   \<and> taint_add x TAINTED = TAINTED
   \<and> taint_add UNKNOWN SAFE = UNKNOWN
   \<and> taint_add SAFE UNKNOWN = UNKNOWN
   \<and> taint_add SAFE SAFE = SAFE"
  by (cases a; cases b; cases c; cases x; simp)


subsection \<open>Binding a call to a signature\<close>

text \<open>
  The first loop of the binding fails with a TypeError only, and hands a part of the
  parameters on to the second loop.
\<close>

lemma bind_positional_result:
  "bind_positional ps args kw acc = Inl e \<Longrightarrow> exc_class e = TypeError"
  "bind_positional ps args kw acc = Inr (rest, acc') \<Longrightarrow> set rest \<subseteq> set ps"
  by (induction ps args kw acc rule: bind_positional.induct; auto split: if_splits)+

lemma filter_keeps_key:
  "k \<in> fst ` set kw \<Longrightarrow> k \<noteq> n \<Longrightarrow> k \<in> fst ` set (filter (\<lambda>(k', v). k' \<noteq> n) kw)"
  by force

lemma map_of_present: "k \<in> fst ` set kw \<Longrightarrow> map_of kw k \<noteq> None"
  by (simp add: map_of_eq_None_iff)

lemma bind_keywords_leftover:
  assumes "k \<in> fst ` set kw"
    and "\<forall>p \<in> set ps. p_kind p \<noteq> VAR_KEYWORD \<and> (p_name p = k \<longrightarrow> p_kind p = POSITIONAL_ONLY)"
  shows "keyword_left k (bind_keywords ps kw acc None)"
  using assms
proof (induction ps arbitrary: kw acc)
  case Nil
  then show ?case by (simp add: keyword_left_def)
next
  case (Cons p ps)
  have kind: "p_kind p \<noteq> VAR_KEYWORD" and pos: "p_name p = k \<Longrightarrow> p_kind p = POSITIONAL_ONLY"
    and rest: "\<forall>p \<in> set ps. p_kind p \<noteq> VAR_KEYWORD \<and> (p_name p = k \<longrightarrow> p_kind p = POSITIONAL_ONLY)"
    using Cons.prems(2) by simp_all
  have ih: "keyword_left k (bind_keywords ps kw' acc' None)" if "k \<in> fst ` set kw'" for kw' acc'
    using Cons.IH[OF that rest] .
  show ?case
  proof (cases "p_kind p = VAR_POSITIONAL")
    case True
    then show ?thesis using ih[OF Cons.prems(1)] by simp
  next
    case notvar: False
    show ?thesis
    proof (cases "map_of kw (p_name p)")
      case None
      show ?thesis
      proof (cases "p_default p = None")
        case True
        with None kind notvar show ?thesis by (simp add: keyword_left_def)
      next
        case False
        then obtain d where "p_default p = Some d" by auto
        with None kind notvar show ?thesis using ih[OF Cons.prems(1)] by simp
      qed
    next
      case (Some v)
      show ?thesis
      proof (cases "p_kind p = POSITIONAL_ONLY")
        case True
        with Some kind notvar show ?thesis by (simp add: keyword_left_def)
      next
        case False
        then have "p_name p \<noteq> k" using pos by blast
        then have "k \<noteq> p_name p" by simp
        with Cons.prems(1) have "k \<in> fst ` set (filter (\<lambda>(k', v). k' \<noteq> p_name p) kw)"
          by (rule filter_keeps_key)
        from ih[OF this] Some kind notvar False show ?thesis by simp
      qed
    qed
  qed
qed

lemma signature_bind_positional_only_keyword:
  assumes "k \<in> fst ` set kw"
    and "\<forall>p \<in> set sig. p_kind p \<noteq> VAR_KEYWORD \<and> (p_name p = k \<longrightarrow> p_kind p = POSITIONAL_ONLY)"
  shows "\<exists>e. signature_bind sig args kw = Inl e \<and> exc_class e = TypeError"
proof (cases "bind_positional sig args kw []")
  case (Inl e)
  then show ?thesis using bind_positional_result(1) by (simp add: signature_bind_def)
next
  case (Inr r)
  obtain rest acc where r: "r = (rest, acc)" by (cases r)
  with Inr have sub: "set rest \<subseteq> set sig" using bind_positional_result(2) by blast
  with assms(2) have "\<forall>p \<in> set rest. p_kind p \<noteq> VAR_KEYWORD \<and> (p_name p = k \<longrightarrow> p_kind p = POSITIONAL_ONLY)"
    by blast
  from bind_keywords_leftover[OF assms(1) this, of acc]
  have kl: "keyword_left k (bind_keywords rest kw acc None)" .
  show ?thesis
  proof (cases "bind_keywords rest kw acc None")
    case (Inl e)
    with kl Inr r show ?thesis by (simp add: signature_bind_def keyword_left_def)
  next
    case b: (Inr t)
    obtain kw' acc' kp where t: "t = (kw', acc', kp)" by (cases t)
    with kl b have "kp = None" and "k \<in> fst ` set kw'" by (simp_all add: keyword_left_def)
    then have "kw' \<noteq> []" and "kp = None" by auto
    with Inr r b t show ?thesis by (simp add: signature_bind_def)
  qed
qed


text \<open>
  A \<open>Dictionary\<close> node whose keys are distinct plain strings becomes the dict of its
  keys and values.
\<close>

lemma dict_set_fresh: "k \<notin> fst ` set d \<Longrightarrow> dict_set d k v = d @ [(k, v)]"
  by (induction d) auto

lemma dict_of_pairs_distinct:
  "distinct ks \<Longrightarrow> PyStr ` set ks \<inter> fst ` set d = {}
   \<Longrightarrow> dict_of_pairs d (zip (map PyStr ks) vs) = Inr (d @ zip (map PyStr ks) vs)"
proof (induction ks arbitrary: d vs)
  case Nil
  then show ?case by simp
next
  case (Cons k ks)
  show ?case
  proof (cases vs)
    case Nil
    then show ?thesis by simp
  next
    case (Cons v vs')
    have fresh: "PyStr k \<notin> fst ` set d" using Cons.prems(2) by auto
    have dis: "distinct ks" and kn: "k \<notin> set ks" using Cons.prems(1) by simp_all
    have "PyStr ` set ks \<inter> fst ` set (d @ [(PyStr k, v)]) = {}"
      using Cons.prems(2) kn by auto
    from Cons.IH[OF dis this, of vs'] show ?thesis
      using Cons fresh by (simp add: dict_set_fresh)
  qed
qed

lemma to_dict_strings:
  "distinct ks \<Longrightarrow> to_dict (map PyStr ks) vs = Inr (zip (map PyStr ks) vs)"
  using dict_of_pairs_distinct[of ks "[]" vs] by (simp add: to_dict_def)

lemma keyword_items_strings:
  "keyword_items (zip (map PyStr ks) vs) = Inr (zip ks vs)"
proof (induction ks arbitrary: vs)
  case Nil
  then show ?case by simp
next
  case (Cons k ks)
  then show ?case by (cases vs) simp_all
qed

lemma bind_Dictionary:
  "distinct ks \<Longrightarrow>
   bind (Call m func args (Dictionary dm (map PyStr ks) vs)) sig
     = bind (Call m func args (PyDict (zip ks vs))) sig"
  by (simp add: to_dict_strings keyword_items_strings)

text \<open>
  C7. For the shape \<open>(a, b=d)\<close>, which \<open>get_signature\<close> builds from the positional
  name \<open>a\<close> and the keyword \<open>b=d\<close>, and a call that passes \<open>x\<close> positionally and
  \<open>b=y\<close> by keyword, the binding succeeds and binds \<open>b\<close> to \<open>y\<close>, not to the default
  \<open>d\<close>; this holds when the keywords of the call are a plain dict and when they are a
  \<open>Dictionary\<close> node. In general a \<open>Dictionary\<close> node with distinct string keys is
  bound as the dict of its keys and values is.
\<close>

theorem bind_keyword_overrides_default:
  assumes "a \<noteq> b"
  shows "apply_signature (Call m func [x] (PyDict [(b, y)])) [a] None None [(b, d)]
           = Inr (BoundArguments
                    [Parameter a POSITIONAL_ONLY None,
                     Parameter b POSITIONAL_OR_KEYWORD (Some d)]
                    [(a, BVal x), (b, BVal y)])
       \<and> apply_signature (Call m func [x] (Dictionary dm [PyStr b] [y])) [a] None None [(b, d)]
           = Inr (BoundArguments
                    [Parameter a POSITIONAL_ONLY None,
                     Parameter b POSITIONAL_OR_KEYWORD (Some d)]
                    [(a, BVal x), (b, BVal y)])
       \<and> (distinct ks \<longrightarrow>
            bind (Call m func args (Dictionary dm (map PyStr ks) vs)) sig
              = bind (Call m func args (PyDict (zip ks vs))) sig)"
proof -
  have sg: "get_signature [a] None None [(b, d)]
              = Inr [Parameter a POSITIONAL_ONLY None, Parameter b POSITIONAL_OR_KEYWORD (Some d)]"
    using assms by (simp add: get_signature_def Signature_def)
  have sb: "signature_bind [Parameter a POSITIONAL_ONLY None, Parameter b POSITIONAL_OR_KEYWORD (Some d)]
              [x] [(b, y)]
            = Inr (BoundArguments
                    [Parameter a POSITIONAL_ONLY None,
                     Parameter b POSITIONAL_OR_KEYWORD (Some d)]
                    [(a, BVal x), (b, BVal y)])"
    using assms by (simp add: signature_bind_def)
  have d1: "to_dict [PyStr b] [y] = Inr [(PyStr b, y)]"
    by (simp add: to_dict_def)
  show ?thesis
    using sg sb d1 bind_Dictionary by simp
qed

theorem bind_keyword_overrides_default_witness:
  "''a'' \<noteq> ''b'' \<and> distinct [''b'']
   \<and> apply_signature (Call meta0 (PyStr ''f'') [PyInt 1] (PyDict [(''b'', PyInt 2)]))
        [''a''] None None [(''b'', PyInt 0)]
      = Inr (BoundArguments
               [Parameter ''a'' POSITIONAL_ONLY None,
                Parameter ''b'' POSITIONAL_OR_KEYWORD (Some (PyInt 0))]
               [(''a'', BVal (PyInt 1)), (''b'', BVal (PyInt 2))])
   \<and> apply_signature (Call meta0 (PyStr ''f'') [PyInt 1] (Dictionary meta0 [PyStr ''b''] [PyInt 2]))
        [''a''] None None [(''b'', PyInt 0)]
      = Inr (BoundArguments
               [Parameter ''a'' POSITIONAL_ONLY None,
                Parameter ''b'' POSITIONAL_OR_KEYWORD (Some (PyInt 0))]
               [(''a'', BVal (PyInt 1)), (''b'', BVal (PyInt 2))])"
  using bind_keyword_overrides_default
          [of "''a''" "''b''" meta0 "PyStr ''f''" "PyInt 1" "PyInt 2" "PyInt 0" meta0
              "[''b'']" "[PyInt 1]" "[PyInt 2]"
              "[Parameter ''a'' POSITIONAL_ONLY None,
                Parameter ''b'' POSITIONAL_OR_KEYWORD (Some (PyInt 0))]"]
  by simp


subsection \<open>The key generation rule\<close>

lemma catalogue_libs:
  assumes "map_of CRYPTO_GEN_KEYS f = Some tgt"
  shows "tg_lib tgt = ''cryptography'' \<or> tg_lib tgt = ''crypto''"
  using assms by (auto simp: CRYPTO_GEN_KEYS_def split: if_splits)

lemma sig_cryptography:
  "get_signature [''key_size''] None None [(''backend'', PyNone)]
     = Inr [Parameter ''key_size'' POSITIONAL_ONLY None,
            Parameter ''backend'' POSITIONAL_OR_KEYWORD (Some PyNone)]"
  by (simp add: get_signature_def Signature_def)

lemma sig_crypto:
  "get_signature [''bits''] None None [(''randfunc'', PyNone), (''domain'', PyNone)]
     = Inr [Parameter ''bits'' POSITIONAL_ONLY None,
            Parameter ''randfunc'' POSITIONAL_OR_KEYWORD (Some PyNone),
            Parameter ''domain'' POSITIONAL_OR_KEYWORD (Some PyNone)]"
  by (simp add: get_signature_def Signature_def)

lemma hit_of_binding_TypeError:
  "exc_class e = TypeError \<Longrightarrow> hit_of_binding path n info (Inl e) = Inr []"
  by (simp add: hit_of_binding_def)

lemma lib_cryptography_keyword:
  assumes "''key_size'' \<in> fst ` set kw"
  shows "lib_cryptography path (Call m func args (PyDict kw)) tgt = Inr []"
proof -
  have "\<exists>e. signature_bind [Parameter ''key_size'' POSITIONAL_ONLY None,
            Parameter ''backend'' POSITIONAL_OR_KEYWORD (Some PyNone)] args kw = Inl e \<and> exc_class e = TypeError"
    by (rule signature_bind_positional_only_keyword[OF assms]) simp
  then obtain e where "signature_bind [Parameter ''key_size'' POSITIONAL_ONLY None,
            Parameter ''backend'' POSITIONAL_OR_KEYWORD (Some PyNone)] args kw = Inl e" and "exc_class e = TypeError"
    by blast
  then show ?thesis
    by (simp add: lib_cryptography_def sig_cryptography hit_of_binding_TypeError)
qed

lemma lib_crypto_keyword:
  assumes "''key_size'' \<in> fst ` set kw"
  shows "lib_crypto path (Call m func args (PyDict kw)) tgt = Inr []"
proof -
  have "\<exists>e. signature_bind [Parameter ''bits'' POSITIONAL_ONLY None,
            Parameter ''randfunc'' POSITIONAL_OR_KEYWORD (Some PyNone),
            Parameter ''domain'' POSITIONAL_OR_KEYWORD (Some PyNone)] args kw = Inl e \<and> exc_class e = TypeError"
    by (rule signature_bind_positional_only_keyword[OF assms]) simp
  then obtain e where "signature_bind [Parameter ''bits'' POSITIONAL_ONLY None,
            Parameter ''randfunc'' POSITIONAL_OR_KEYWORD (Some PyNone),
            Parameter ''domain'' POSITIONAL_OR_KEYWORD (Some PyNone)] args kw = Inl e" and "exc_class e = TypeError"
    by blast
  then show ?thesis
    by (simp add: lib_crypto_def sig_crypto hit_of_binding_TypeError)
qed

lemma node_Call_catalogue:
  assumes "full_name n = Inr (PyStr f)" and "map_of CRYPTO_GEN_KEYS f = Some tgt"
  shows "node_Call path n =
           (if tg_lib tgt = ''cryptography'' then lib_cryptography path n tgt
            else lib_crypto path n tgt)"
  using assms catalogue_libs[OF assms(2)] by (auto simp add: node_Call_def)


lemma keyword_key_size_no_finding:
  assumes "full_name (Call m func args (PyDict kw)) = Inr (PyStr f)"
    and "map_of CRYPTO_GEN_KEYS f = Some tgt"
    and "''key_size'' \<in> fst ` set kw"
  shows "node_Call path (Call m func args (PyDict kw)) = Inr []"
  by (simp only: node_Call_catalogue[OF assms(1,2)] lib_cryptography_keyword[OF assms(3)]
       lib_crypto_keyword[OF assms(3)] if_cancel)

lemma gen_hit_full_name:
  assumes "full_name (Call m func args kwargs) = Inr (PyStr f)"
  shows "gen_hit path (Call m func args kwargs) tgt (Some v) =
           Inr \<lparr>rule = CryptoKeyGeneration, location = None,
                message = Some ''Generation of cryptography key detected'',
                signature = Some (''crypto#gen_key#'' @ path @ ''#'' @ str_int_option (line_no m)),
                score = (if v < (case map_of MIN_KEY_SIZES (tg_type tgt) of
                                   None \<Rightarrow> 0 | Some x \<Rightarrow> x)
                         then Some 100 else None),
                extra = [(''function'', XStr f), (''key_type'', XStr (tg_type tgt)),
                         (''key_size'', XInt v)]\<rparr>"
  using assms by (simp add: gen_hit_def del: full_name.simps)

lemma lib_cryptography_positional:
  assumes "k = Number km v \<or> k = PyInt v"
  shows "lib_cryptography path (Call m func [k] (PyDict [])) tgt =
           (case gen_hit path (Call m func [k] (PyDict [])) tgt (Some v) of
              Inl e \<Rightarrow> Inl e | Inr hit \<Rightarrow> Inr [hit])"
  using assms
  by (auto simp add: lib_cryptography_def sig_cryptography hit_of_binding_def signature_bind_def
        bound_args_def simp del: full_name.simps)

lemma lib_crypto_positional:
  assumes "k = Number km v \<or> k = PyInt v"
  shows "lib_crypto path (Call m func [k] (PyDict [])) tgt =
           (case gen_hit path (Call m func [k] (PyDict [])) tgt (Some v) of
              Inl e \<Rightarrow> Inl e | Inr hit \<Rightarrow> Inr [hit])"
  using assms
  by (auto simp add: lib_crypto_def sig_crypto hit_of_binding_def signature_bind_def
        bound_args_def simp del: full_name.simps)


text \<open>
  C1, as the code has it. For a call whose full name is a catalogue entry of the family
  \<open>rsa\<close>: when the key size 1024 is the only argument and is positional (a \<open>Number\<close>
  node or a plain integer), the rule yields exactly one finding, with the extra fields
  \<open>function\<close>, \<open>key_type = rsa\<close> and \<open>key_size = 1024\<close> and the score 100; when the
  keywords of the call include \<open>key_size\<close>, the binding fails and the rule yields
  nothing.
\<close>

theorem crypto_rsa_key_size_1024:
  assumes "map_of CRYPTO_GEN_KEYS f = Some tgt" and "tg_type tgt = ''rsa''"
  shows "(full_name (Call m func [k] (PyDict [])) = Inr (PyStr f)
            \<and> (k = Number km 1024 \<or> k = PyInt 1024)
          \<longrightarrow> node_Call path (Call m func [k] (PyDict [])) =
                Inr [\<lparr>rule = CryptoKeyGeneration, location = None,
                      message = Some ''Generation of cryptography key detected'',
                      signature = Some (''crypto#gen_key#'' @ path @ ''#''
                                        @ str_int_option (line_no m)),
                      score = Some 100,
                      extra = [(''function'', XStr f), (''key_type'', XStr ''rsa''),
                               (''key_size'', XInt 1024)]\<rparr>])
       \<and> (full_name (Call m' func' args (PyDict kw)) = Inr (PyStr f)
            \<and> ''key_size'' \<in> fst ` set kw
          \<longrightarrow> node_Call path (Call m' func' args (PyDict kw)) = Inr [])"
proof (intro conjI impI)
  assume a: "full_name (Call m func [k] (PyDict [])) = Inr (PyStr f)
           \<and> (k = Number km 1024 \<or> k = PyInt 1024)"
  then have fn: "full_name (Call m func [k] (PyDict [])) = Inr (PyStr f)"
    and k: "k = Number km 1024 \<or> k = PyInt 1024" by blast+
  have g: "gen_hit path (Call m func [k] (PyDict [])) tgt (Some 1024) =
             Inr \<lparr>rule = CryptoKeyGeneration, location = None,
                  message = Some ''Generation of cryptography key detected'',
                  signature = Some (''crypto#gen_key#'' @ path @ ''#''
                                    @ str_int_option (line_no m)),
                  score = Some 100,
                  extra = [(''function'', XStr f), (''key_type'', XStr ''rsa''),
                           (''key_size'', XInt 1024)]\<rparr>"
    by (simp add: gen_hit_full_name[OF fn] assms(2) MIN_KEY_SIZES_def)
  show "node_Call path (Call m func [k] (PyDict [])) =
          Inr [\<lparr>rule = CryptoKeyGeneration, location = None,
                message = Some ''Generation of cryptography key detected'',
                signature = Some (''crypto#gen_key#'' @ path @ ''#''
                                  @ str_int_option (line_no m)),
                score = Some 100,
                extra = [(''function'', XStr f), (''key_type'', XStr ''rsa''),
                         (''key_size'', XInt 1024)]\<rparr>]"
    by (simp only: node_Call_catalogue[OF fn assms(1)] lib_cryptography_positional[OF k]
          lib_crypto_positional[OF k] g sum.case if_cancel)
next
  assume "full_name (Call m' func' args (PyDict kw)) = Inr (PyStr f)
           \<and> ''key_size'' \<in> fst ` set kw"
  then show "node_Call path (Call m' func' args (PyDict kw)) = Inr []"
    using keyword_key_size_no_finding[OF _ assms(1)] by blast
qed

theorem crypto_rsa_key_size_1024_witness:
  "map_of CRYPTO_GEN_KEYS ''cryptography.hazmat.primitives.asymmetric.rsa.generate_private_key''
     = Some \<lparr>tg_type = ''rsa'', tg_lib = ''cryptography''\<rparr>
   \<and> full_name call_positional
       = Inr (PyStr ''cryptography.hazmat.primitives.asymmetric.rsa.generate_private_key'')
   \<and> node_Call ''setup.py'' call_positional =
       Inr [\<lparr>rule = CryptoKeyGeneration, location = None,
             message = Some ''Generation of cryptography key detected'',
             signature = Some ''crypto#gen_key#setup.py#7'',
             score = Some 100,
             extra = [(''function'',
                       XStr ''cryptography.hazmat.primitives.asymmetric.rsa.generate_private_key''),
                      (''key_type'', XStr ''rsa''), (''key_size'', XInt 1024)]\<rparr>]
   \<and> full_name call_keyword
       = Inr (PyStr ''cryptography.hazmat.primitives.asymmetric.rsa.generate_private_key'')
   \<and> node_Call ''setup.py'' call_keyword = Inr []"
  using crypto_rsa_key_size_1024
          [of "''cryptography.hazmat.primitives.asymmetric.rsa.generate_private_key''"
              "\<lparr>tg_type = ''rsa'', tg_lib = ''cryptography''\<rparr>"
              "\<lparr>full_name_slot = None, line_no = Some 7\<rparr>"
              "Attribute meta0 rsa_import ''generate_private_key'' ''Load''"
              "Number meta0 1024" meta0 "''setup.py''"
              "\<lparr>full_name_slot = None, line_no = Some 7\<rparr>"
              "Attribute meta0 rsa_import ''generate_private_key'' ''Load''"
              "[]" "[(''key_size'', Number meta0 1024)]"]
  by (simp add: CRYPTO_GEN_KEYS_def call_positional_def call_keyword_def rsa_import_def
        meta0_def str_int_option_def str_int_def)

text \<open>
  The claim as it is written fails: the call \<open>rsa.generate_private_key(key_size=1024)\<close>
  resolves to a catalogue entry of the family \<open>rsa\<close>, and the rule yields no finding.
\<close>

theorem crypto_keyword_key_size_counterexample:
  "full_name call_keyword
     = Inr (PyStr ''cryptography.hazmat.primitives.asymmetric.rsa.generate_private_key'')
   \<and> map_of CRYPTO_GEN_KEYS
         ''cryptography.hazmat.primitives.asymmetric.rsa.generate_private_key''
       = Some \<lparr>tg_type = ''rsa'', tg_lib = ''cryptography''\<rparr>
   \<and> node_Call ''setup.py'' call_keyword = Inr []"
  by (simp add: node_Call_def call_keyword_def rsa_import_def meta0_def CRYPTO_GEN_KEYS_def
        lib_cryptography_def hit_of_binding_def get_signature_def Signature_def
        signature_bind_def py_repr_def)

subsection \<open>Suspicious archive entries\<close>

text \<open>
  On a path that does not start with a slash, \<open>Path(pth).parts\<close> holds \<open>..\<close> exactly
  when one of the components between slashes is \<open>..\<close>. What the two process functions
  extract has passed \<open>is_suspicious\<close>.
\<close>

lemma startswith_slash: "startswith p ''/'' \<longleftrightarrow> (\<exists>r. p = CHR ''/'' # r)"
  by (cases p) (auto simp: startswith_def)

lemma split_sep_no_sep: "c \<notin> set s \<Longrightarrow> split_sep c s = [s]"
  by (induction s) auto

lemma path_parts_relative:
  assumes "\<not> startswith p ''/''"
  shows "''..'' \<in> set (path_parts p) \<longleftrightarrow> ''..'' \<in> set (split_sep CHR ''/'' p)"
proof (cases p)
  case Nil
  then show ?thesis by (simp add: path_parts_def)
next
  case (Cons c r)
  with assms have "c \<noteq> CHR ''/''" by (simp add: startswith_def)
  with Cons have root: "splitroot p = ([], p)" by (simp add: splitroot_def)
  show ?thesis
  proof (cases "CHR ''/'' \<in> set p")
    case True
    with Cons root show ?thesis by (simp add: path_parts_def)
  next
    case False
    then have "split_sep CHR ''/'' p = [p]" by (rule split_sep_no_sep)
    with Cons root False show ?thesis by (auto simp add: path_parts_def)
  qed
qed

lemma is_suspicious_absolute:
  "startswith pth ''/'' \<Longrightarrow>
   is_suspicious e pth loc =
     Some \<lparr>rule = SuspiciousArchiveEntry,
           location = Some (normalize_path e loc),
           message = None,
           signature = Some (''suspicious_archive_entry#absolute_path#''
                             @ normalize_path e pth @ ''#'' @ loc),
           score = Some (get_score_or_default e ''suspicious-archive-entry-absolute-path'' 50),
           extra = [(''entry_type'', XStr ''absolute_path''),
                    (''entry_path'', XStr (normalize_path e pth))]\<rparr>"
  by (simp add: is_suspicious_def Let_def)

lemma is_suspicious_parent:
  assumes "\<not> startswith pth ''/''" and "''..'' \<in> set (split_sep CHR ''/'' pth)"
  shows "is_suspicious e pth loc =
     Some \<lparr>rule = SuspiciousArchiveEntry,
           location = Some (normalize_path e loc),
           message = None,
           signature = Some (''suspicious_archive_entry#parent_reference#''
                             @ normalize_path e pth @ ''#'' @ loc),
           score = Some (get_score_or_default e ''suspicious-archive-entry-parent-reference'' 50),
           extra = [(''entry_type'', XStr ''parent_reference''),
                    (''entry_path'', XStr (normalize_path e pth))]\<rparr>"
proof -
  have "list_ex (\<lambda>x. x = ''..'') (path_parts pth)"
    using assms path_parts_relative[OF assms(1)] by (simp add: list_ex_iff)
  with assms(1) show ?thesis by (simp add: is_suspicious_def Let_def)
qed

lemma is_suspicious_None:
  assumes "is_suspicious e pth loc = None"
  shows "\<not> startswith pth ''/''" and "''..'' \<notin> set (split_sep CHR ''/'' pth)"
proof -
  show a: "\<not> startswith pth ''/''"
    using assms is_suspicious_absolute[of pth e loc] by auto
  show "''..'' \<notin> set (split_sep CHR ''/'' pth)"
    using assms is_suspicious_parent[OF a, of e loc] by auto
qed

lemma extract_zip_entries_approved:
  "ExtractZip x t \<in> set (fst (extract_zip_entries w tmp_dir ys)) \<Longrightarrow> Inr x \<in> set ys"
  by (induction w tmp_dir ys rule: extract_zip_entries.induct)
     (auto split: option.splits prod.splits)

lemma extract_tar_entries_approved:
  "ExtractTar x t \<in> set (fst (extract_tar_entries w tmp_dir ys)) \<Longrightarrow> Inr x \<in> set ys"
  by (induction w tmp_dir ys rule: extract_tar_entries.induct)
     (auto split: option.splits prod.splits)

lemma zip_entry_approved:
  "zip_entry e path ms y = Inr x \<Longrightarrow> x = y \<and> is_suspicious e (filename x) path = None"
  by (auto simp: zip_entry_def split: option.splits if_splits)

lemma tar_member_approved:
  "Inr x \<in> set (tar_member e path ms y) \<Longrightarrow> x = y \<and> is_suspicious e (t_name x) path = None"
  by (auto simp: tar_member_def split: option.splits if_splits)

lemma filter_zip_approved:
  "Inr x \<in> set (filter_zip e arch path ms) \<Longrightarrow> is_suspicious e (filename x) path = None"
  by (auto simp: filter_zip_def Let_def dest!: zip_entry_approved[OF sym])

lemma filter_tar_approved:
  "Inr x \<in> set (filter_tar e arch path ms) \<Longrightarrow> is_suspicious e (t_name x) path = None"
  by (auto simp: filter_tar_def Let_def dest!: tar_member_approved)

lemma process_zipfile_extracted:
  "ExtractZip x t \<in> set (fst (process_zipfile e w path tmp_dir))
   \<Longrightarrow> is_suspicious e (filename x) path = None"
  by (auto simp: process_zipfile_def split: sum.splits
        dest!: extract_zip_entries_approved filter_zip_approved)

lemma process_tarfile_extracted:
  "ExtractTar x t \<in> set (fst (process_tarfile e w path tmp_dir))
   \<Longrightarrow> is_suspicious e (t_name x) path = None"
  by (auto simp: process_tarfile_def split: sum.splits
        dest!: extract_tar_entries_approved filter_tar_approved)

text \<open>
  C3. An entry path that starts with the root marker \<open>/\<close> is classified
  \<open>absolute_path\<close>, whether or not it has a component \<open>..\<close>; a path that does not
  start with \<open>/\<close> and has a component that is exactly \<open>..\<close> is classified
  \<open>parent_reference\<close>. The score of either finding is the configured one, and 50 when
  none is configured. For such a path both filters yield the finding in place of the
  entry, and neither \<open>process_zipfile\<close> nor \<open>process_tarfile\<close> extracts an entry with
  that path.
\<close>

theorem suspicious_entries_not_extracted:
  "(startswith pth ''/'' \<longrightarrow>
      is_suspicious e pth loc =
        Some \<lparr>rule = SuspiciousArchiveEntry,
              location = Some (normalize_path e loc),
              message = None,
              signature = Some (''suspicious_archive_entry#absolute_path#''
                                @ normalize_path e pth @ ''#'' @ loc),
              score = Some (get_score_or_default e ''suspicious-archive-entry-absolute-path'' 50),
              extra = [(''entry_type'', XStr ''absolute_path''),
                       (''entry_path'', XStr (normalize_path e pth))]\<rparr>)
   \<and> (\<not> startswith pth ''/'' \<and> ''..'' \<in> set (split_sep CHR ''/'' pth) \<longrightarrow>
      is_suspicious e pth loc =
        Some \<lparr>rule = SuspiciousArchiveEntry,
              location = Some (normalize_path e loc),
              message = None,
              signature = Some (''suspicious_archive_entry#parent_reference#''
                                @ normalize_path e pth @ ''#'' @ loc),
              score = Some (get_score_or_default e ''suspicious-archive-entry-parent-reference'' 50),
              extra = [(''entry_type'', XStr ''parent_reference''),
                       (''entry_path'', XStr (normalize_path e pth))]\<rparr>)
   \<and> (map_of (scores e) ''suspicious-archive-entry-absolute-path'' = None \<longrightarrow>
        get_score_or_default e ''suspicious-archive-entry-absolute-path'' 50 = 50)
   \<and> (map_of (scores e) ''suspicious-archive-entry-parent-reference'' = None \<longrightarrow>
        get_score_or_default e ''suspicious-archive-entry-parent-reference'' 50 = 50)
   \<and> (startswith pth ''/'' \<or> ''..'' \<in> set (split_sep CHR ''/'' pth) \<longrightarrow>
        (\<exists>res. is_suspicious e pth loc = Some res
           \<and> (filename x = pth \<longrightarrow> zip_entry e loc ms x = Inl res)
           \<and> (t_name y = pth \<longrightarrow> tar_member e loc ms y = [Inl res]))
        \<and> (filename x = pth \<longrightarrow> ExtractZip x t \<notin> set (fst (process_zipfile e w loc tmp_dir)))
        \<and> (t_name y = pth \<longrightarrow> ExtractTar y t \<notin> set (fst (process_tarfile e w loc tmp_dir))))"
proof (intro conjI impI)
  assume "startswith pth ''/''"
  then show "is_suspicious e pth loc =
        Some \<lparr>rule = SuspiciousArchiveEntry,
              location = Some (normalize_path e loc),
              message = None,
              signature = Some (''suspicious_archive_entry#absolute_path#''
                                @ normalize_path e pth @ ''#'' @ loc),
              score = Some (get_score_or_default e ''suspicious-archive-entry-absolute-path'' 50),
              extra = [(''entry_type'', XStr ''absolute_path''),
                       (''entry_path'', XStr (normalize_path e pth))]\<rparr>"
    by (rule is_suspicious_absolute)
next
  assume "\<not> startswith pth ''/'' \<and> ''..'' \<in> set (split_sep CHR ''/'' pth)"
  then show "is_suspicious e pth loc =
        Some \<lparr>rule = SuspiciousArchiveEntry,
              location = Some (normalize_path e loc),
              message = None,
              signature = Some (''suspicious_archive_entry#parent_reference#''
                                @ normalize_path e pth @ ''#'' @ loc),
              score = Some (get_score_or_default e ''suspicious-archive-entry-parent-reference'' 50),
              extra = [(''entry_type'', XStr ''parent_reference''),
                       (''entry_path'', XStr (normalize_path e pth))]\<rparr>"
    using is_suspicious_parent by blast
next
  assume "map_of (scores e) ''suspicious-archive-entry-absolute-path'' = None"
  then show "get_score_or_default e ''suspicious-archive-entry-absolute-path'' 50 = 50"
    by (simp add: get_score_or_default_def)
next
  assume "map_of (scores e) ''suspicious-archive-entry-parent-reference'' = None"
  then show "get_score_or_default e ''suspicious-archive-entry-parent-reference'' 50 = 50"
    by (simp add: get_score_or_default_def)
next
  assume a: "startswith pth ''/'' \<or> ''..'' \<in> set (split_sep CHR ''/'' pth)"
  then have "is_suspicious e pth loc \<noteq> None"
    using is_suspicious_None[of e pth loc] by blast
  then obtain res where res: "is_suspicious e pth loc = Some res" by blast
  then show "\<exists>res. is_suspicious e pth loc = Some res
           \<and> (filename x = pth \<longrightarrow> zip_entry e loc ms x = Inl res)
           \<and> (t_name y = pth \<longrightarrow> tar_member e loc ms y = [Inl res])"
    by (simp add: zip_entry_def tar_member_def)
next
  assume a: "startswith pth ''/'' \<or> ''..'' \<in> set (split_sep CHR ''/'' pth)"
    and x: "filename x = pth"
  from a have "is_suspicious e pth loc \<noteq> None"
    using is_suspicious_None[of e pth loc] by blast
  with x show "ExtractZip x t \<notin> set (fst (process_zipfile e w loc tmp_dir))"
    using process_zipfile_extracted[of x t e w loc tmp_dir] by auto
next
  assume a: "startswith pth ''/'' \<or> ''..'' \<in> set (split_sep CHR ''/'' pth)"
    and y: "t_name y = pth"
  from a have "is_suspicious e pth loc \<noteq> None"
    using is_suspicious_None[of e pth loc] by blast
  with y show "ExtractTar y t \<notin> set (fst (process_tarfile e w loc tmp_dir))"
    using process_tarfile_extracted[of y t e w loc tmp_dir] by auto
qed

theorem suspicious_entries_not_extracted_witness:
  "\<not> startswith ''../../etc/passwd'' ''/''
   \<and> ''..'' \<in> set (split_sep CHR ''/'' ''../../etc/passwd'')
   \<and> is_suspicious env_default ''../../etc/passwd'' ''pkg.zip'' =
        Some \<lparr>rule = SuspiciousArchiveEntry,
              location = Some ''pkg.zip'',
              message = None,
              signature = Some ''suspicious_archive_entry#parent_reference#../../etc/passwd#pkg.zip'',
              score = Some 50,
              extra = [(''entry_type'', XStr ''parent_reference''),
                       (''entry_path'', XStr ''../../etc/passwd'')]\<rparr>
   \<and> ExtractZip \<lparr>filename = ''../../etc/passwd'', file_size = 3\<rparr> ''/tmp/x''
        \<notin> set (fst (process_zipfile env_default zip_world ''pkg.zip'' ''/tmp/x''))
   \<and> startswith ''/etc/../passwd'' ''/''
   \<and> is_suspicious env_default ''/etc/../passwd'' ''pkg.zip'' =
        Some \<lparr>rule = SuspiciousArchiveEntry,
              location = Some ''pkg.zip'',
              message = None,
              signature = Some ''suspicious_archive_entry#absolute_path#/etc/../passwd#pkg.zip'',
              score = Some 50,
              extra = [(''entry_type'', XStr ''absolute_path''),
                       (''entry_path'', XStr ''/etc/../passwd'')]\<rparr>"
  using suspicious_entries_not_extracted
          [of "''../../etc/passwd''" env_default "''pkg.zip''"
              "\<lparr>filename = ''../../etc/passwd'', file_size = 3\<rparr>" None
              "\<lparr>t_name = ''../../etc/passwd'', t_size = 3, t_type = REGTYPE\<rparr>"
              "''/tmp/x''" zip_world "''/tmp/x''"]
        suspicious_entries_not_extracted
          [of "''/etc/../passwd''" env_default "''pkg.zip''"
              "\<lparr>filename = ''/etc/../passwd'', file_size = 3\<rparr>" None
              "\<lparr>t_name = ''/etc/../passwd'', t_size = 3, t_type = REGTYPE\<rparr>"
              "''/tmp/x''" zip_world "''/tmp/x''"]
  by (simp add: startswith_def env_default_def get_score_or_default_def)

subsection \<open>The archive analyzer\<close>

lemma archive_analyzer_supported:
  assumes "\<not> is_dir w (sl_location loc)"
    and "map_of (sl_metadata loc) ''mime'' = Some mime"
    and "mime \<in> set SUPPORTED_MIME"
  shows "archive_analyzer e w loc =
    (let tmp_dir = mkdtemp w ''aura_pkg__sandbox'' (basename (sl_location loc));
         child = Yield (Loc (create_child loc tmp_dir True));
         p = (if mime = ''application/zip''
              then process_zipfile e w (sl_location loc) tmp_dir
              else process_tarfile e w (sl_location loc) tmp_dir)
     in (case snd p of
           None \<Rightarrow> (child # fst p, None)
         | Some exc \<Rightarrow>
             if exc_class exc = ReadError \<or> exc_class exc = BadZipFile then
               (case from_generic_exception e loc exc of
                  Inl exc' \<Rightarrow> (child # fst p, Some exc')
                | Inr hit \<Rightarrow> (child # fst p @ [Yield (Hit hit)], None))
             else (child # fst p, Some exc)))"
  using assms by (simp add: archive_analyzer_def Let_def case_prod_beta)

text \<open>
  C6. For a location that is not a directory and whose content type is one of
  \<open>SUPPORTED_MIME\<close>, the first thing the analyzer does is to yield the child location
  of the temporary directory with \<open>cleanup = True\<close>: it comes before every extraction
  and every finding, whatever opening the archive and extracting its entries do later.
\<close>

theorem archive_analyzer_child_first:
  assumes "\<not> is_dir w (sl_location loc)"
    and "map_of (sl_metadata loc) ''mime'' = Some mime"
    and "mime \<in> set SUPPORTED_MIME"
  shows "\<exists>child evs.
           fst (archive_analyzer e w loc) = Yield (Loc child) # evs
         \<and> child = create_child loc
                     (mkdtemp w ''aura_pkg__sandbox'' (basename (sl_location loc))) True
         \<and> sl_location child = mkdtemp w ''aura_pkg__sandbox'' (basename (sl_location loc))
         \<and> sl_cleanup child = True"
  by (simp add: archive_analyzer_supported[OF assms] Let_def create_child_def
        split: option.splits sum.splits)

theorem archive_analyzer_child_first_witness:
  "\<not> is_dir zip_world (sl_location zip_location)
   \<and> map_of (sl_metadata zip_location) ''mime'' = Some ''application/zip''
   \<and> ''application/zip'' \<in> set SUPPORTED_MIME
   \<and> archive_analyzer env_default zip_world zip_location =
       ([Yield (Loc (ScanLocation ''/tmp/aura_pkg__sandbox0001pkg.zip''
                       [(''mime'', ''application/zip'')] (Some zip_location) True)),
         ExtractZip \<lparr>filename = ''setup.py'', file_size = 3\<rparr>
           ''/tmp/aura_pkg__sandbox0001pkg.zip'',
         Yield (Hit \<lparr>rule = SuspiciousArchiveEntry,
                     location = Some ''pkg.zip'',
                     message = None,
                     signature = Some ''suspicious_archive_entry#parent_reference#../../etc/passwd#pkg.zip'',
                     score = Some 50,
                     extra = [(''entry_type'', XStr ''parent_reference''),
                              (''entry_path'', XStr ''../../etc/passwd'')]\<rparr>),
         ExtractZip \<lparr>filename = ''broken.py'', file_size = 3\<rparr>
           ''/tmp/aura_pkg__sandbox0001pkg.zip''],
        Some (Exn (OtherError ''OSError'') [''No space left on device'']))"
  using archive_analyzer_child_first
          [of zip_world zip_location "''application/zip''" env_default]
  by (simp add: archive_analyzer_def zip_world_def zip_location_def SUPPORTED_MIME_def
        env_default_def basename_def create_child_def process_zipfile_def filter_zip_def
        get_maximum_archive_size_def zip_entry_def is_suspicious_def startswith_def
        path_parts_def splitroot_def get_score_or_default_def Let_def)

text \<open>
  C5. When opening the archive of such a location raises \<open>tarfile.ReadError\<close> or
  \<open>zipfile.BadZipFile\<close> (with a message, as the archive libraries raise them), the
  analyzer yields the child location and then exactly one finding, with the extra fields
  \<open>reason = archive_read_error\<close>, \<open>exc_message\<close>, \<open>exc_type\<close> (the class name) and
  \<open>mime\<close>, and ends without an exception.
\<close>

theorem archive_read_error_finding:
  assumes "\<not> is_dir w (sl_location loc)"
    and "map_of (sl_metadata loc) ''mime'' = Some mime"
    and "mime \<in> set SUPPORTED_MIME"
    and "if mime = ''application/zip'' then open_zip w (sl_location loc) = Inl exc
         else open_tar w (sl_location loc) = Inl exc"
    and "exc_class exc = ReadError \<or> exc_class exc = BadZipFile"
    and "exc_args exc = msg # rest"
  shows "archive_analyzer e w loc =
           ([Yield (Loc (create_child loc
                          (mkdtemp w ''aura_pkg__sandbox'' (basename (sl_location loc))) True)),
             Yield (Hit \<lparr>rule = ArchiveAnomaly,
                         location = Some (sl_location loc),
                         message = Some ''Could not open the archive for analysis'',
                         signature = Some (''archive_anomaly#read_error#'' @ sl_location loc),
                         score = Some (get_score_or_default e ''corrupted-archive'' 10),
                         extra = [(''reason'', XStr ''archive_read_error''),
                                  (''exc_message'', XStr msg),
                                  (''exc_type'', XStr (class_name (exc_class exc))),
                                  (''mime'', XStr mime)]\<rparr>)],
            None)"
proof -
  have p: "(if mime = ''application/zip''
            then process_zipfile e w (sl_location loc) (mkdtemp w ''aura_pkg__sandbox'' (basename (sl_location loc)))
            else process_tarfile e w (sl_location loc) (mkdtemp w ''aura_pkg__sandbox'' (basename (sl_location loc))))
           = ([], Some exc)"
    using assms(4) by (simp add: process_zipfile_def process_tarfile_def split: if_splits)
  have g: "from_generic_exception e loc exc =
             Inr \<lparr>rule = ArchiveAnomaly,
                         location = Some (sl_location loc),
                         message = Some ''Could not open the archive for analysis'',
                         signature = Some (''archive_anomaly#read_error#'' @ sl_location loc),
                         score = Some (get_score_or_default e ''corrupted-archive'' 10),
                         extra = [(''reason'', XStr ''archive_read_error''),
                                  (''exc_message'', XStr msg),
                                  (''exc_type'', XStr (class_name (exc_class exc))),
                                  (''mime'', XStr mime)]\<rparr>"
    using assms(2,6) by (simp add: from_generic_exception_def)
  show ?thesis
    using assms(5) by (simp add: archive_analyzer_supported[OF assms(1,2,3)] Let_def p g)
qed

theorem archive_read_error_finding_witness:
  "\<not> is_dir zip_world (sl_location tar_location)
   \<and> map_of (sl_metadata tar_location) ''mime'' = Some ''application/gzip''
   \<and> ''application/gzip'' \<in> set SUPPORTED_MIME
   \<and> open_tar zip_world (sl_location tar_location)
       = Inl (Exn ReadError [''file could not be opened successfully''])
   \<and> archive_analyzer env_default zip_world tar_location =
       ([Yield (Loc (ScanLocation ''/tmp/aura_pkg__sandbox0001pkg.tar.gz''
                       [(''mime'', ''application/gzip'')] (Some tar_location) True)),
         Yield (Hit \<lparr>rule = ArchiveAnomaly,
                     location = Some ''pkg.tar.gz'',
                     message = Some ''Could not open the archive for analysis'',
                     signature = Some ''archive_anomaly#read_error#pkg.tar.gz'',
                     score = Some 10,
                     extra = [(''reason'', XStr ''archive_read_error''),
                              (''exc_message'', XStr ''file could not be opened successfully''),
                              (''exc_type'', XStr ''ReadError''),
                              (''mime'', XStr ''application/gzip'')]\<rparr>)],
        None)"
  using archive_read_error_finding
          [of zip_world tar_location "''application/gzip''"
              "Exn ReadError [''file could not be opened successfully'']"
              "''file could not be opened successfully''" "[]" env_default]
  by (simp add: zip_world_def tar_location_def SUPPORTED_MIME_def env_default_def
        basename_def create_child_def get_score_or_default_def)

subsection \<open>Oversized entries\<close>

lemma isfile_kinds: "isfile y \<Longrightarrow> \<not> isdir y \<and> \<not> issym y \<and> \<not> islnk y"
  by (auto simp: isfile_def isdir_def issym_def islnk_def)

text \<open>
  C8. The finding of an oversized zip entry, for a limit passed by the caller or taken
  from the configuration, is built without a score, so it has the default score of the
  base class, which is 10, whatever the configuration says. The finding of an oversized
  regular file in a tar archive has the score configured for
  \<open>archive-file-size-exceeded\<close>, and 100 when none is configured. The two scores differ.
\<close>

theorem oversized_entry_scores:
  "(is_suspicious e (filename x) path = None
      \<and> (case ms of None \<Rightarrow> get_maximum_archive_size e | Some m' \<Rightarrow> Some m') = Some m
      \<and> file_size x > m \<longrightarrow>
        zip_entry e path (Some m) x = Inl (size_hit path (filename x) (file_size x) m None)
      \<and> (x \<in> set arch \<longrightarrow>
            Inl (size_hit path (filename x) (file_size x) m None)
              \<in> set (filter_zip e arch path ms))
      \<and> map_of (extra (size_hit path (filename x) (file_size x) m None)) ''reason''
            = Some (XStr ''file_size_exceeded'')
      \<and> score (size_hit path (filename x) (file_size x) m None) = None
      \<and> effective_score Rule_default_score
            (size_hit path (filename x) (file_size x) m None) = 10)
   \<and> (is_suspicious e (t_name y) path = None \<and> isfile y \<and> t_size y > m \<longrightarrow>
        tar_member e path (Some m) y =
          [Inl (size_hit path (t_name y) (t_size y) m
                  (Some (get_score_or_default e ''archive-file-size-exceeded'' 100)))]
      \<and> (y \<in> set tarch \<longrightarrow>
            Inl (size_hit path (t_name y) (t_size y) m
                   (Some (get_score_or_default e ''archive-file-size-exceeded'' 100)))
              \<in> set (filter_tar e tarch path (Some m)))
      \<and> map_of (extra (size_hit path (t_name y) (t_size y) m
                   (Some (get_score_or_default e ''archive-file-size-exceeded'' 100))))
            ''reason'' = Some (XStr ''file_size_exceeded'')
      \<and> (map_of (scores e) ''archive-file-size-exceeded'' = None \<longrightarrow>
            score (size_hit path (t_name y) (t_size y) m
                     (Some (get_score_or_default e ''archive-file-size-exceeded'' 100)))
              = Some 100
          \<and> effective_score Rule_default_score
                (size_hit path (t_name y) (t_size y) m
                   (Some (get_score_or_default e ''archive-file-size-exceeded'' 100))) = 100
          \<and> effective_score Rule_default_score
                (size_hit path (t_name y) (t_size y) m
                   (Some (get_score_or_default e ''archive-file-size-exceeded'' 100)))
              \<noteq> effective_score Rule_default_score
                    (size_hit path (filename x) (file_size x) m None)))"
proof (intro conjI impI)
  assume a: "is_suspicious e (filename x) path = None
      \<and> (case ms of None \<Rightarrow> get_maximum_archive_size e | Some m' \<Rightarrow> Some m') = Some m
      \<and> file_size x > m"
  then show z: "zip_entry e path (Some m) x
                  = Inl (size_hit path (filename x) (file_size x) m None)"
    by (simp add: zip_entry_def)
  from a have lim: "filter_zip e arch path ms = map (zip_entry e path (Some m)) arch"
    by (simp add: filter_zip_def)
  assume "x \<in> set arch"
  then have "zip_entry e path (Some m) x \<in> set (filter_zip e arch path ms)"
    by (simp add: lim)
  then show "Inl (size_hit path (filename x) (file_size x) m None)
               \<in> set (filter_zip e arch path ms)"
    by (simp add: z)
next
  show "map_of (extra (size_hit path (filename x) (file_size x) m None)) ''reason''
          = Some (XStr ''file_size_exceeded'')"
    by (simp add: size_hit_def)
next
  show "score (size_hit path (filename x) (file_size x) m None) = None"
    by (simp add: size_hit_def)
next
  show "effective_score Rule_default_score
          (size_hit path (filename x) (file_size x) m None) = 10"
    by (simp add: size_hit_def effective_score_def Rule_default_score_def)
next
  assume a: "is_suspicious e (t_name y) path = None \<and> isfile y \<and> t_size y > m"
  then have k: "\<not> isdir y \<and> \<not> issym y \<and> \<not> islnk y" using isfile_kinds by blast
  with a show z: "tar_member e path (Some m) y =
          [Inl (size_hit path (t_name y) (t_size y) m
                  (Some (get_score_or_default e ''archive-file-size-exceeded'' 100)))]"
    by (simp add: tar_member_def)
  assume "y \<in> set tarch"
  then have "set (tar_member e path (Some m) y) \<subseteq> set (filter_tar e tarch path (Some m))"
    by (auto simp: filter_tar_def)
  then show "Inl (size_hit path (t_name y) (t_size y) m
                   (Some (get_score_or_default e ''archive-file-size-exceeded'' 100)))
              \<in> set (filter_tar e tarch path (Some m))"
    by (simp add: z)
next
  show "map_of (extra (size_hit path (t_name y) (t_size y) m
                   (Some (get_score_or_default e ''archive-file-size-exceeded'' 100))))
            ''reason'' = Some (XStr ''file_size_exceeded'')"
    by (simp add: size_hit_def)
next
  assume "map_of (scores e) ''archive-file-size-exceeded'' = None"
  then show "score (size_hit path (t_name y) (t_size y) m
                     (Some (get_score_or_default e ''archive-file-size-exceeded'' 100)))
              = Some 100"
    by (simp add: size_hit_def get_score_or_default_def)
next
  assume "map_of (scores e) ''archive-file-size-exceeded'' = None"
  then show "effective_score Rule_default_score
                (size_hit path (t_name y) (t_size y) m
                   (Some (get_score_or_default e ''archive-file-size-exceeded'' 100))) = 100"
    by (simp add: size_hit_def effective_score_def get_score_or_default_def)
next
  assume "map_of (scores e) ''archive-file-size-exceeded'' = None"
  then show "effective_score Rule_default_score
                (size_hit path (t_name y) (t_size y) m
                   (Some (get_score_or_default e ''archive-file-size-exceeded'' 100)))
              \<noteq> effective_score Rule_default_score
                    (size_hit path (filename x) (file_size x) m None)"
    by (simp add: size_hit_def effective_score_def get_score_or_default_def
          Rule_default_score_def)
qed

theorem oversized_entry_scores_witness:
  "is_suspicious env_limit5 (filename big_entry) ''pkg'' = None
   \<and> get_maximum_archive_size env_limit5 = Some 5
   \<and> file_size big_entry > 5
   \<and> filter_zip env_limit5 [big_entry] ''pkg'' None =
       [Inl \<lparr>rule = ArchiveAnomaly, location = Some ''pkg'',
             message = Some ''Archive contain a file that exceed the configured maximum size'',
             signature = Some ''archive_anomaly#size#pkg#data.bin'',
             score = None,
             extra = [(''archive_path'', XStr ''data.bin''),
                      (''reason'', XStr ''file_size_exceeded''),
                      (''size'', XInt 10), (''limit'', XInt 5)]\<rparr>]
   \<and> effective_score Rule_default_score (size_hit ''pkg'' ''data.bin'' 10 5 None) = 10
   \<and> is_suspicious env_limit5 (t_name big_member) ''pkg'' = None
   \<and> isfile big_member \<and> t_size big_member > 5
   \<and> map_of (scores env_limit5) ''archive-file-size-exceeded'' = None
   \<and> filter_tar env_limit5 [big_member] ''pkg'' (Some 5) =
       [Inl \<lparr>rule = ArchiveAnomaly, location = Some ''pkg'',
             message = Some ''Archive contain a file that exceed the configured maximum size'',
             signature = Some ''archive_anomaly#size#pkg#data.bin'',
             score = Some 100,
             extra = [(''archive_path'', XStr ''data.bin''),
                      (''reason'', XStr ''file_size_exceeded''),
                      (''size'', XInt 10), (''limit'', XInt 5)]\<rparr>]
   \<and> effective_score Rule_default_score (size_hit ''pkg'' ''data.bin'' 10 5 (Some 100)) = 100"
  using oversized_entry_scores
          [of env_limit5 big_entry "''pkg''" None 5 "[big_entry]" big_member "[big_member]"]
  by (simp add: env_limit5_def big_entry_def big_member_def is_suspicious_def startswith_def
        path_parts_def splitroot_def isfile_def filter_zip_def filter_tar_def zip_entry_def
        tar_member_def isdir_def issym_def islnk_def size_hit_def get_score_or_default_def
        get_maximum_archive_size_def effective_score_def Rule_default_score_def Let_def)

text \<open>
  The size limit on the two paths. With the limit of the configuration, \<open>filter_zip\<close>
  compares every entry with it. \<open>filter_tar\<close> without a limit from its caller never
  reads the limit of the configuration, and approves every regular file.
\<close>

lemma zip_entry_limit:
  "is_suspicious e (filename x) path = None \<Longrightarrow>
   zip_entry e path (Some m) x =
     (if file_size x > m then Inl (size_hit path (filename x) (file_size x) m None) else Inr x)"
  by (simp add: zip_entry_def)

lemma filter_zip_default_limit:
  "get_maximum_archive_size e = Some m \<Longrightarrow>
   filter_zip e arch path None = map (zip_entry e path (Some m)) arch"
  by (simp add: filter_zip_def)

lemma filter_tar_ignores_default_limit:
  "filter_tar e arch path None = filter_tar (e\<lparr>maximum_archive_size := None\<rparr>) arch path None"
proof -
  have "tar_member e path None = tar_member (e\<lparr>maximum_archive_size := None\<rparr>) path None"
    by (rule ext) (simp add: tar_member_def is_suspicious_def get_score_or_default_def Let_def)
  then show ?thesis by (simp add: filter_tar_def)
qed

lemma tar_member_no_limit:
  "is_suspicious e (t_name y) path = None \<Longrightarrow> isfile y \<Longrightarrow>
   tar_member e path None y = [Inr y]"
  by (auto simp add: tar_member_def isfile_def isdir_def issym_def islnk_def)

text \<open>
  C2 at a tar archive with one regular file of size 10, a configured maximum of 5 and no
  limit passed by the caller: \<open>filter_tar\<close> approves the entry and the analyzer
  extracts it, where \<open>filter_zip\<close> yields the finding for an entry of the same size.
\<close>

theorem tar_default_limit_not_applied:
  "get_maximum_archive_size env_limit5 = Some 5
   \<and> t_size big_member = 10 \<and> isfile big_member
   \<and> filter_tar env_limit5 [big_member] ''pkg.tar.gz'' None = [Inr big_member]
   \<and> archive_analyzer env_limit5 tar_world tar_location =
       ([Yield (Loc (ScanLocation ''/tmp/aura_pkg__sandbox0001pkg.tar.gz''
                       [(''mime'', ''application/gzip'')] (Some tar_location) True)),
         ExtractTar big_member ''/tmp/aura_pkg__sandbox0001pkg.tar.gz''],
        None)
   \<and> filter_zip env_limit5 [big_entry] ''pkg.zip'' None =
       [Inl \<lparr>rule = ArchiveAnomaly, location = Some ''pkg.zip'',
             message = Some ''Archive contain a file that exceed the configured maximum size'',
             signature = Some ''archive_anomaly#size#pkg.zip#data.bin'',
             score = None,
             extra = [(''archive_path'', XStr ''data.bin''),
                      (''reason'', XStr ''file_size_exceeded''),
                      (''size'', XInt 10), (''limit'', XInt 5)]\<rparr>]"
  by (simp add: env_limit5_def big_entry_def big_member_def tar_world_def tar_location_def
        is_suspicious_def startswith_def path_parts_def splitroot_def isfile_def
        filter_zip_def filter_tar_def zip_entry_def tar_member_def isdir_def issym_def
        islnk_def size_hit_def get_maximum_archive_size_def archive_analyzer_def
        SUPPORTED_MIME_def basename_def create_child_def process_tarfile_def Let_def)

subsection \<open>Full names of attributes\<close>

text \<open>
  C10. An \<open>Attribute\<close> node whose source is not an \<open>Import\<close> node has the full name
  \<open>None\<close>. A call of such an attribute whose own \<open>_full_name\<close> slot is unset (as
  \<open>__post_init__\<close> leaves it) then has the attribute node itself as full name, which is
  not a string, and the key generation rule yields nothing for it.
\<close>

theorem attribute_without_import_no_finding:
  assumes "\<not> isinstance_Import source"
  shows "full_name (Attribute m source attr action) = Inr PyNone
       \<and> (full_name_slot cm = None \<longrightarrow>
            node_Call path (Call cm (Attribute m source attr action) args kwargs) = Inr [])"
proof -
  have fn: "full_name (Attribute m source attr action) = Inr PyNone"
    using assms by (cases source) simp_all
  have "full_name (Call cm (Attribute m source attr action) args kwargs)
          = Inr (Attribute m source attr action)" if "full_name_slot cm = None"
    using that fn by (simp del: full_name.simps(2) add: full_name.simps(4))
  then show ?thesis using fn by (simp add: node_Call_def del: full_name.simps)
qed

theorem attribute_without_import_no_finding_witness:
  "\<not> isinstance_Import (Attribute meta0 rsa_import ''rsa'' ''Load'')
   \<and> full_name (Attribute meta0 (Attribute meta0 rsa_import ''rsa'' ''Load'')
                  ''generate_private_key'' ''Load'') = Inr PyNone
   \<and> full_name_slot meta0 = None
   \<and> node_Call ''setup.py''
        (Call meta0 (Attribute meta0 (Attribute meta0 rsa_import ''rsa'' ''Load'')
                       ''generate_private_key'' ''Load'')
           [Number meta0 1024] (PyDict [])) = Inr []"
  using attribute_without_import_no_finding
          [of "Attribute meta0 rsa_import ''rsa'' ''Load''" meta0 "''generate_private_key''"
              "''Load''" meta0 "''setup.py''" "[Number meta0 1024]" "PyDict []"]
  by (simp add: meta0_def)


subsection \<open>Static nodes\<close>

text \<open>
  C9 at a literal. \<open>Number\<close> and \<open>String\<close> do not override \<open>is_static\<close>, so a literal
  number or string is reported as not static, and so is a dictionary that holds one.
\<close>

theorem number_is_not_static:
  "is_static (Number m v) = Inr False
   \<and> is_static (String m s) = Inr False
   \<and> is_static (Dictionary m [PyStr ''key''] [Number m v]) = Inr False"
  by simp

end
